theory Spec2Isabelle
  imports Complex_Main
begin

section \<open>JavaScript values, errors and effects\<close>

text \<open>
  A thrown JavaScript error: its \<open>code\<close> property (absent on a plain \<open>new Error(msg)\<close>,
  present on the errors of Node's resolver, e.g. \<open>ENOTFOUND\<close>) and its message.
\<close>

datatype js_error = Error (err_code: "string option") (err_message: string)

text \<open>
  An awaited call either throws or yields a value; what it did to the outside world is
  recorded by appending the call to the state. \<open>('s, 'a) io\<close> is such a computation over a
  state \<open>'s\<close>; \<open>bind\<close> is sequencing (an exception skips the rest), \<open>try_catch\<close> is a
  \<open>try { ... } catch (e) { ... }\<close> block.
\<close>

type_synonym ('s, 'a) io = "'s \<Rightarrow> (js_error + 'a) \<times> 's"

definition return :: "'a \<Rightarrow> ('s, 'a) io" where
  "return a s = (Inr a, s)"

definition throw :: "js_error \<Rightarrow> ('s, 'a) io" where
  "throw e s = (Inl e, s)"

definition bind :: "('s, 'a) io \<Rightarrow> ('a \<Rightarrow> ('s, 'b) io) \<Rightarrow> ('s, 'b) io" where
  "bind m k s = (case m s of (Inl e, s') \<Rightarrow> (Inl e, s') | (Inr a, s') \<Rightarrow> k a s')"

definition try_catch :: "('s, 'a) io \<Rightarrow> (js_error \<Rightarrow> ('s, 'a) io) \<Rightarrow> ('s, 'a) io" where
  "try_catch m h s = (case m s of (Inl e, s') \<Rightarrow> h e s' | (Inr a, s') \<Rightarrow> (Inr a, s'))"

section \<open>Strings\<close>

text \<open>
  Page markup, selectors and addresses are strings over 8-bit characters (Latin-1); a
  character's code is \<open>of_char c\<close>. \<open>startsWith\<close>, \<open>str_includes\<close> (the method
  \<open>includes\<close>), \<open>str_le\<close> and \<open>str_ge\<close> (the operators \<open><=\<close> and \<open>>=\<close> on strings)
  and \<open>toLowerCase\<close> are those of JavaScript's String.
\<close>

fun startsWith :: "string \<Rightarrow> string \<Rightarrow> bool" where
  "startsWith s [] = True"
| "startsWith [] (p # ps) = False"
| "startsWith (c # cs) (p # ps) = (if c = p then startsWith cs ps else False)"

fun str_includes :: "string \<Rightarrow> string \<Rightarrow> bool" where
  "str_includes [] p = startsWith [] p"
| "str_includes (c # cs) p = (if startsWith (c # cs) p then True else str_includes cs p)"

text \<open>Strings compare lexicographically on the character codes, a proper prefix being smaller.\<close>

fun str_le :: "string \<Rightarrow> string \<Rightarrow> bool" where
  "str_le [] b = True"
| "str_le (x # xs) [] = False"
| "str_le (x # xs) (y # ys) =
     ((of_char x :: nat) < of_char y \<or> (x = y \<and> str_le xs ys))"

definition str_ge :: "string \<Rightarrow> string \<Rightarrow> bool" where
  "str_ge a b = str_le b a"

text \<open>
  The small letter of a capital letter has the code of the capital plus 32, for the letters
  A to Z (codes 65 to 90) and for the accented capitals of Latin-1 (codes 192 to 222 but
  215, the multiplication sign). In these codes the bit of value 32 is clear, so adding
  32 is setting that bit.
\<close>

fun plus_32 :: "char \<Rightarrow> char" where
  "plus_32 (Char b0 b1 b2 b3 b4 b5 b6 b7) = Char b0 b1 b2 b3 b4 True b6 b7"

definition toLowerChar :: "char \<Rightarrow> char" where
  "toLowerChar c =
     (let n = (of_char c :: nat)
      in if (65 \<le> n \<and> n \<le> 90) \<or> (192 \<le> n \<and> n \<le> 222 \<and> n \<noteq> 215)
         then plus_32 c else c)"

definition toLowerCase :: "string \<Rightarrow> string" where
  "toLowerCase s = map toLowerChar s"

section \<open>Target Validator: the private-address classifier\<close>

text \<open>
  \<open>isPrivateIp\<close> of scanRunner.js. \<open>net.isIPv4\<close> and \<open>net.isIPv6\<close> are Node's built-in
  classifiers, taken as the parameters \<open>isIPv4\<close> and \<open>isIPv6\<close>.
\<close>

definition isPrivateIp :: "(string \<Rightarrow> bool) \<Rightarrow> (string \<Rightarrow> bool) \<Rightarrow> string \<Rightarrow> bool" where
  "isPrivateIp isIPv4 isIPv6 ip =
     (if isIPv4 ip then
        (startsWith ip ''10.'' \<or>
         startsWith ip ''192.168.'' \<or>
         startsWith ip ''127.'' \<or>
         startsWith ip ''169.254.'' \<or>
         (str_ge ip ''172.16.0.0'' \<and> str_le ip ''172.31.255.255''))
      else if isIPv6 ip then
        (ip = ''::1'' \<or> startsWith ip ''fc'' \<or> startsWith ip ''fd'')
      else False)"

text \<open>
  The ranges as the specification words them, on the four numbers of a dotted-decimal
  IPv4 address: 10/8, 172.16/12, 192.168/16, 127/8 and 169.254/16. \<open>dotted_octets\<close>
  reads the numbers off the text (\<open>None\<close> when the text is not four decimal numbers
  below 256 without leading zeros, which is what \<open>net.isIPv4\<close> accepts).
\<close>

definition is_digit :: "char \<Rightarrow> bool" where
  "is_digit c = (48 \<le> (of_char c :: nat) \<and> (of_char c :: nat) \<le> 57)"

fun split_dots :: "string \<Rightarrow> string list" where
  "split_dots [] = [[]]"
| "split_dots (c # cs) =
     (if c = CHR ''.'' then [] # split_dots cs
      else (case split_dots cs of [] \<Rightarrow> [[c]] | p # ps \<Rightarrow> (c # p) # ps))"

definition decimal_value :: "string \<Rightarrow> nat" where
  "decimal_value ds = foldl (\<lambda>acc d. 10 * acc + (of_char d - 48)) 0 ds"

definition octet_of :: "string \<Rightarrow> nat option" where
  "octet_of ds =
     (if ds = [] \<or> \<not> list_all is_digit ds \<or> 3 < length ds then None
      else if 1 < length ds \<and> hd ds = CHR ''0'' then None
      else if 255 < decimal_value ds then None
      else Some (decimal_value ds))"

definition dotted_octets :: "string \<Rightarrow> nat list option" where
  "dotted_octets ip =
     (let parts = map octet_of (split_dots ip)
      in if length parts = 4 \<and> list_all (\<lambda>p. p \<noteq> None) parts
         then Some (map the parts) else None)"

definition net_isIPv4 :: "string \<Rightarrow> bool" where
  "net_isIPv4 ip = (dotted_octets ip \<noteq> None)"

fun private_ipv4_range :: "nat list \<Rightarrow> bool" where
  "private_ipv4_range [a, b, c, d] =
     (a = 10 \<or> (a = 172 \<and> 16 \<le> b \<and> b \<le> 31) \<or> (a = 192 \<and> b = 168) \<or>
      a = 127 \<or> (a = 169 \<and> b = 254))"
| "private_ipv4_range _ = False"

section \<open>Challenge Detector\<close>

text \<open>
  The regular expressions of the detector, written as matchers in continuation style:
  each takes the matcher for the rest of the pattern and the text still to be read.
  All four expressions carry the flag \<open>i\<close> and consist of ASCII characters, so a letter
  of the pattern matches that letter in either case and nothing else.
\<close>

definition ascii_lower :: "char \<Rightarrow> char" where
  "ascii_lower c =
     (let n = (of_char c :: nat) in if 65 \<le> n \<and> n \<le> 90 then plus_32 c else c)"

fun lit_ci :: "string \<Rightarrow> (string \<Rightarrow> bool) \<Rightarrow> string \<Rightarrow> bool" where
  \<comment> \<open>the literal (given in lower case), then \<open>k\<close>\<close>
  "lit_ci [] k s = k s"
| "lit_ci (p # ps) k [] = False"
| "lit_ci (p # ps) k (c # cs) = (if ascii_lower c = p then lit_ci ps k cs else False)"

fun one_of :: "(char \<Rightarrow> bool) \<Rightarrow> (string \<Rightarrow> bool) \<Rightarrow> string \<Rightarrow> bool" where
  \<comment> \<open>one character of a class, then \<open>k\<close>\<close>
  "one_of P k [] = False"
| "one_of P k (c # cs) = (if P c then k cs else False)"

definition opt_of :: "(char \<Rightarrow> bool) \<Rightarrow> (string \<Rightarrow> bool) \<Rightarrow> string \<Rightarrow> bool" where
  \<comment> \<open>\<open>[class]?\<close>, then \<open>k\<close>\<close>
  "opt_of P k s = (if one_of P k s then True else k s)"

fun plus_of :: "(char \<Rightarrow> bool) \<Rightarrow> (string \<Rightarrow> bool) \<Rightarrow> string \<Rightarrow> bool" where
  \<comment> \<open>\<open>[class]+\<close>, then \<open>k\<close>\<close>
  "plus_of P k [] = False"
| "plus_of P k (c # cs) = (if P c then (if k cs then True else plus_of P k cs) else False)"

definition star_of :: "(char \<Rightarrow> bool) \<Rightarrow> (string \<Rightarrow> bool) \<Rightarrow> string \<Rightarrow> bool" where
  \<comment> \<open>\<open>[class]*\<close>, then \<open>k\<close>\<close>
  "star_of P k s = (if k s then True else plus_of P k s)"

fun re_test :: "(string \<Rightarrow> bool) \<Rightarrow> string \<Rightarrow> bool" where
  \<comment> \<open>\<open>re.test(s)\<close>: the pattern matches at some position of \<open>s\<close>\<close>
  "re_test m [] = m []"
| "re_test m (c # cs) = (if m (c # cs) then True else re_test m cs)"

definition not_gt :: "char \<Rightarrow> bool" where
  "not_gt c = (c \<noteq> CHR ''>'')"

definition is_quote :: "char \<Rightarrow> bool" where
  "is_quote c = (c = CHR 0x22 \<or> c = CHR 0x27)"

definition not_quote :: "char \<Rightarrow> bool" where
  "not_quote c = (\<not> is_quote c)"

definition finish :: "string \<Rightarrow> bool" where
  "finish s = True"

definition re_meta_refresh :: "string \<Rightarrow> bool" where
  \<comment> \<open>\<^verbatim>\<open>/<meta[^>]+http-equiv=["']?refresh/i\<close>\<close>
  "re_meta_refresh =
     re_test (lit_ci ''<meta'' (plus_of not_gt (lit_ci ''http-equiv=''
       (opt_of is_quote (lit_ci ''refresh'' finish)))))"

definition re_cf_spinner_div :: "string \<Rightarrow> bool" where
  \<comment> \<open>\<^verbatim>\<open>/<div[^>]+id=["']?cf-spinner/i\<close>\<close>
  "re_cf_spinner_div =
     re_test (lit_ci ''<div'' (plus_of not_gt (lit_ci ''id=''
       (opt_of is_quote (lit_ci ''cf-spinner'' finish)))))"

definition re_cf_class_div :: "string \<Rightarrow> bool" where
  \<comment> \<open>\<^verbatim>\<open>/<div[^>]+class=["'][^"']*cf-[^"']*["']/i\<close>\<close>
  "re_cf_class_div =
     re_test (lit_ci ''<div'' (plus_of not_gt (lit_ci ''class=''
       (one_of is_quote (star_of not_quote (lit_ci ''cf-''
         (star_of not_quote (one_of is_quote finish))))))))"

definition re_spinner_or_cloudflare :: "string \<Rightarrow> bool" where
  \<comment> \<open>\<^verbatim>\<open>/cf-spinner|cloudflare/i\<close>\<close>
  "re_spinner_or_cloudflare =
     re_test (\<lambda>s. if lit_ci ''cf-spinner'' finish s then True else lit_ci ''cloudflare'' finish s)"

definition isCloudflare :: "string \<Rightarrow> bool" where
  "isCloudflare pageContent =
     (let lowerContent = toLowerCase pageContent
      in str_includes lowerContent ''cf-browser-verification'' \<or>
         str_includes lowerContent ''attention required! | cloudflare'' \<or>
         str_includes lowerContent ''challenge-form'' \<or>
         str_includes lowerContent ''cloudflare ray id'' \<or>
         str_includes lowerContent ''just a moment...'' \<or>
         str_includes lowerContent ''checking your browser before accessing'' \<or>
         str_includes lowerContent ''data-cf-settings'' \<or>
         str_includes lowerContent ''data-cf-beacon'' \<or>
         str_includes lowerContent ''ray id:'' \<or>
         str_includes lowerContent ''please enable javascript and cookies to continue'' \<or>
         re_meta_refresh pageContent \<or>
         re_cf_spinner_div pageContent \<or>
         re_cf_class_div pageContent)"

definition onlySpinner :: "string \<Rightarrow> string \<Rightarrow> bool" where
  "onlySpinner pageContent bodyText =
     (re_spinner_or_cloudflare pageContent \<and> length bodyText < 20)"

definition isSuspiciouslyEmpty :: "string \<Rightarrow> string \<Rightarrow> bool" where
  "isSuspiciouslyEmpty pageContent bodyText =
     (length bodyText < 20 \<and> length pageContent < 2000)"

definition challenge_detected :: "string \<Rightarrow> string \<Rightarrow> bool" where
  \<comment> \<open>the condition of the \<open>throw\<close> that follows the audit in \<open>runScan\<close>\<close>
  "challenge_detected pageContent bodyText =
     (isCloudflare pageContent \<or> onlySpinner pageContent bodyText \<or>
      isSuspiciouslyEmpty pageContent bodyText)"

section \<open>Evidence Capture\<close>

text \<open>
  The page as \<open>getElementScreenshot\<close> sees it. Element handles are object identities.
  Every awaited DOM call may throw; what it answers may depend on everything the capture
  has done so far, so each answer is a function of the calls made up to then (the
  history). Sizes and coordinates are JavaScript numbers, taken as reals.
\<close>

type_synonym handle = nat

record box =
  box_x :: real
  box_y :: real
  box_width :: real
  box_height :: real

datatype dom_call =
    Query string                 \<comment> \<open>\<open>page.$(selector)\<close>\<close>
  | BoundingBox handle           \<comment> \<open>\<open>handle.boundingBox()\<close>\<close>
  | EvaluateParent string        \<comment> \<open>\<open>page.evaluateHandle\<close> of \<open>querySelector(sel)?.parentElement\<close>\<close>
  | Dispose handle               \<comment> \<open>\<open>handle.dispose()\<close>\<close>
  | ScrollTo string real         \<comment> \<open>\<open>page.evaluate\<close> scrolling the element into view\<close>
  | Highlight string             \<comment> \<open>\<open>page.evaluate\<close> setting the outline\<close>
  | ClipScreenshot box           \<comment> \<open>\<open>page.screenshot({clip, encoding})\<close>\<close>
  | RemoveHighlight string       \<comment> \<open>\<open>page.evaluate\<close> clearing the outline\<close>
  | ViewportScreenshot           \<comment> \<open>\<open>page.screenshot({encoding, fullPage: false})\<close>\<close>

record dom =
  query :: "dom_call list \<Rightarrow> string \<Rightarrow> js_error + handle option"
  boundingBox :: "dom_call list \<Rightarrow> handle \<Rightarrow> js_error + box option"
  evaluateParent :: "dom_call list \<Rightarrow> string \<Rightarrow> js_error + handle option"
  dispose :: "dom_call list \<Rightarrow> handle \<Rightarrow> js_error + unit"
  evaluate :: "dom_call list \<Rightarrow> dom_call \<Rightarrow> js_error + unit"
  screenshot_clip :: "dom_call list \<Rightarrow> box \<Rightarrow> js_error + string"
  screenshot_viewport :: "dom_call list \<Rightarrow> js_error + string"

definition dom_call :: "dom_call \<Rightarrow> (dom_call list \<Rightarrow> js_error + 'a) \<Rightarrow> (dom_call list, 'a) io" where
  \<comment> \<open>make the call: the answer is taken at the history, the call joins the history\<close>
  "dom_call c answer h = (answer h, h @ [c])"

text \<open>The options object; an absent property takes its default in the destructuring.\<close>

record options =
  minSize :: "real option"
  maxAttempts :: "int option"
  viewportPadding :: "real option"
  includeParent :: "bool option"

definition no_options :: options where
  "no_options = \<lparr>minSize = None, maxAttempts = None, viewportPadding = None, includeParent = None\<rparr>"

definition min_size :: "options \<Rightarrow> real" where
  "min_size opts = (case minSize opts of None \<Rightarrow> 10 | Some v \<Rightarrow> v)"

definition max_attempts :: "options \<Rightarrow> int" where
  "max_attempts opts = (case maxAttempts opts of None \<Rightarrow> 3 | Some v \<Rightarrow> v)"

definition viewport_padding :: "options \<Rightarrow> real" where
  "viewport_padding opts = (case viewportPadding opts of None \<Rightarrow> 20 | Some v \<Rightarrow> v)"

definition include_parent :: "options \<Rightarrow> bool" where
  "include_parent opts = (case includeParent opts of None \<Rightarrow> True | Some v \<Rightarrow> v)"

definition data_uri :: "string \<Rightarrow> string" where
  "data_uri base64 = ''data:image/png;base64,'' @ base64"

definition clip_of :: "box \<Rightarrow> real \<Rightarrow> box" where
  \<comment> \<open>the \<open>clip\<close> rectangle of the element's screenshot\<close>
  "clip_of b padding =
     \<lparr>box_x = max 0 (box_x b - padding), box_y = max 0 (box_y b - padding),
      box_width = box_width b + padding * 2, box_height = box_height b + padding * 2\<rparr>"

text \<open>
  What the body of one \<open>try\<close> block does when it does not throw: it returns a value
  (\<open>null\<close> or a data URI), or it returns the call of \<open>getElementScreenshot\<close> on the
  selector \<open>`${selector} > ..`\<close> with \<open>includeParent: false\<close>.
\<close>

datatype attempt_result = Value "string option" | RetryParent

definition parent_selector :: "string \<Rightarrow> string" where
  "parent_selector selector = selector @ '' > ..''"

definition too_small_branch :: "dom \<Rightarrow> string \<Rightarrow> options \<Rightarrow> box \<Rightarrow> (dom_call list, attempt_result) io" where
  "too_small_branch page selector opts b =
     (if include_parent opts then
        bind (dom_call (EvaluateParent selector) (\<lambda>h. evaluateParent page h selector)) (\<lambda>parent.
          case parent of
            None \<Rightarrow> return (Value None)
          | Some p \<Rightarrow>
              bind (dom_call (BoundingBox p) (\<lambda>h. boundingBox page h p)) (\<lambda>parentBox.
                case parentBox of
                  None \<Rightarrow> bind (dom_call (Dispose p) (\<lambda>h. dispose page h p)) (\<lambda>_. return (Value None))
                | Some pb \<Rightarrow>
                    if box_width pb > box_width b \<or> box_height pb > box_height b
                    then bind (dom_call (Dispose p) (\<lambda>h. dispose page h p)) (\<lambda>_. return RetryParent)
                    else bind (dom_call (Dispose p) (\<lambda>h. dispose page h p)) (\<lambda>_. return (Value None))))
      else return (Value None))"

definition shoot_element :: "dom \<Rightarrow> string \<Rightarrow> options \<Rightarrow> handle \<Rightarrow> box \<Rightarrow> (dom_call list, attempt_result) io" where
  "shoot_element page selector opts element b =
     bind (dom_call (ScrollTo selector (viewport_padding opts))
             (\<lambda>h. evaluate page h (ScrollTo selector (viewport_padding opts)))) (\<lambda>_.
     bind (dom_call (Highlight selector) (\<lambda>h. evaluate page h (Highlight selector))) (\<lambda>_.
     bind (dom_call (ClipScreenshot (clip_of b (viewport_padding opts)))
             (\<lambda>h. screenshot_clip page h (clip_of b (viewport_padding opts)))) (\<lambda>screenshot.
     bind (dom_call (RemoveHighlight selector) (\<lambda>h. evaluate page h (RemoveHighlight selector))) (\<lambda>_.
     bind (dom_call (Dispose element) (\<lambda>h. dispose page h element)) (\<lambda>_.
     return (Value (Some (data_uri screenshot))))))))"

definition attempt :: "dom \<Rightarrow> string \<Rightarrow> options \<Rightarrow> (dom_call list, attempt_result) io" where
  \<comment> \<open>the body of the \<open>try\<close> block of one iteration\<close>
  "attempt page selector opts =
     bind (dom_call (Query selector) (\<lambda>h. query page h selector)) (\<lambda>element.
       case element of
         None \<Rightarrow> return (Value None)
       | Some el \<Rightarrow>
           bind (dom_call (BoundingBox el) (\<lambda>h. boundingBox page h el)) (\<lambda>bx.
             case bx of
               None \<Rightarrow> return (Value None)
             | Some b \<Rightarrow>
                 if box_width b < min_size opts \<or> box_height b < min_size opts
                 then too_small_branch page selector opts b
                 else shoot_element page selector opts el b))"

definition viewport_fallback :: "dom \<Rightarrow> (dom_call list, string option) io" where
  \<comment> \<open>the inner \<open>try\<close>/\<open>catch\<close> of the last attempt\<close>
  "viewport_fallback page =
     try_catch
       (bind (dom_call ViewportScreenshot (screenshot_viewport page))
          (\<lambda>fullScreenshot. return (Some (data_uri fullScreenshot))))
       (\<lambda>e. return None)"

lemma attempt_RetryParent_include_parent:
  "attempt page selector opts h = (Inr RetryParent, h') \<Longrightarrow> include_parent opts"
  by (auto simp: attempt_def too_small_branch_def shoot_element_def bind_def return_def dom_call_def
           split: sum.splits option.splits if_splits prod.splits)

text \<open>
  The \<open>for\<close> loop from iteration \<open>attempt_no\<close> on. The recursive call of the source is
  the second recursive call here; it starts its own loop at iteration 0.
\<close>

function getElementScreenshot_from ::
  "dom \<Rightarrow> string \<Rightarrow> options \<Rightarrow> nat \<Rightarrow> (dom_call list, string option) io" where
  "getElementScreenshot_from page selector opts attempt_no h =
     (if int attempt_no < max_attempts opts then
        (case attempt page selector opts h of
           (Inr (Value v), h') \<Rightarrow> (Inr v, h')
         | (Inr RetryParent, h') \<Rightarrow>
             getElementScreenshot_from page (parent_selector selector)
               (opts\<lparr>includeParent := Some False\<rparr>) 0 h'
         | (Inl error, h') \<Rightarrow>
             if int attempt_no = max_attempts opts - 1
             then viewport_fallback page h'
             else getElementScreenshot_from page selector opts (attempt_no + 1) h')
      else (Inr None, h))"
  by pat_completeness auto
termination
proof (relation "measures [\<lambda>(page, selector, opts, attempt_no, h). if include_parent opts then 1 else 0,
                           \<lambda>(page, selector, opts, attempt_no, h). nat (max_attempts opts - int attempt_no)]")
  show "wf (measures [\<lambda>(page, selector, opts, attempt_no, h). if include_parent opts then 1 else 0,
                      \<lambda>(page, selector, opts, attempt_no, h). nat (max_attempts opts - int attempt_no)])"
    by simp
next
  fix page selector opts attempt_no h x h' a
  assume "(x, h') = attempt page selector opts h" "x = Inr a" "a = RetryParent"
  then have "include_parent opts"
    using attempt_RetryParent_include_parent [of page selector opts h h'] by simp
  then show "((page, parent_selector selector, opts\<lparr>includeParent := Some False\<rparr>, 0, h'),
              (page, selector, opts, attempt_no, h))
             \<in> measures [\<lambda>(page, selector, opts, attempt_no, h). if include_parent opts then 1 else 0,
                         \<lambda>(page, selector, opts, attempt_no, h). nat (max_attempts opts - int attempt_no)]"
    by (simp add: include_parent_def)
next
  fix page selector opts attempt_no h x h' e
  assume "int attempt_no < max_attempts opts" "int attempt_no \<noteq> max_attempts opts - 1"
  then show "((page, selector, opts, attempt_no + 1, h'), (page, selector, opts, attempt_no, h))
             \<in> measures [\<lambda>(page, selector, opts, attempt_no, h). if include_parent opts then 1 else 0,
                         \<lambda>(page, selector, opts, attempt_no, h). nat (max_attempts opts - int attempt_no)]"
    by simp
qed

declare getElementScreenshot_from.simps [simp del]

definition getElementScreenshot :: "dom \<Rightarrow> string \<Rightarrow> options \<Rightarrow> (dom_call list, string option) io" where
  "getElementScreenshot page selector opts = getElementScreenshot_from page selector opts 0"

section \<open>Engine results and the scan result\<close>

text \<open>
  What the two engines resolve to, as far as \<open>runScan\<close> reads it. A property that may
  be absent is an option. The items of \<open>passed\<close>, \<open>notices\<close>, \<open>warnings\<close> and
  \<open>incomplete\<close> are opaque.
\<close>

record pa11y_issue =
  issue_code :: string
  issue_selector :: "string option"

record pa11y_result =
  res_issues :: "pa11y_issue list option"
  res_passed :: "string list option"
  res_notices :: "string list option"
  res_warnings :: "string list option"
  res_error :: "string option"

record axe_node =
  node_html :: string
  node_target :: "string list option"

record axe_rule =
  rule_id :: string
  rule_nodes :: "axe_node list"

record axe_result =
  res_violations :: "axe_rule list option"
  res_passes :: "axe_rule list option"
  res_incomplete :: "string list option"
  res_axe_error :: "string option"

text \<open>
  The returned object. \<open>{...issue, screenshot}\<close> is the issue with a screenshot that is
  \<open>null\<close> or a data URI, likewise for the nodes of a violation. The passed checks of
  Pa11y are returned with \<open>screenshot: null\<close> each. The passes of axe are returned with
  \<open>screenshot: null\<close> on every node by the \<open>return\<close> of the \<open>try\<close> block, and as the
  engine gave them by the \<open>return\<close> of the \<open>catch\<close> block.
\<close>

record issue_with_screen =
  the_issue :: pa11y_issue
  issue_screenshot :: "string option"

record node_with_screen =
  the_node :: axe_node
  node_screenshot :: "string option"

record rule_with_screens =
  the_rule_id :: string
  the_nodes :: "node_with_screen list"

record pa11y_section =
  issues :: "issue_with_screen list"
  passed :: "string list"
  notices :: "string list option"
  warnings :: "string list option"
  pa11y_error :: "string option"

datatype passes_field = WithNullScreens "rule_with_screens list" | AsGiven "axe_rule list option"

record axe_section =
  violations :: "rule_with_screens list"
  passes :: passes_field
  incomplete :: "string list option"
  axe_error :: "string option"

datatype scan_result =
    Complete pa11y_section axe_section "string option"
      \<comment> \<open>\<open>{pa11y, axe, pageScreenshot}\<close>, returned by the \<open>try\<close> block\<close>
  | Caught pa11y_section axe_section
      \<comment> \<open>\<open>{pa11y, axe}\<close>, returned by the \<open>catch\<close> block\<close>

section \<open>Scan Orchestrator\<close>

text \<open>
  The calls \<open>runScan\<close> makes on the outside world, in the order it makes them. The
  captures of one batch are awaited together; each is recorded as one entry that carries
  the DOM calls it made, and each gets its answers from a page of its own
  (\<open>capture_page\<close>), so that nothing is assumed on how the captures of a batch interleave.
\<close>

datatype capture_id = IssueCapture nat | NodeCapture nat nat

datatype call =
    ParseUrl string              \<comment> \<open>\<open>new URL(url)\<close>\<close>
  | DnsLookup string             \<comment> \<open>\<open>dns.lookup(hostname, {all: true})\<close>\<close>
  | Launch                       \<comment> \<open>\<open>puppeteer.launch\<close>\<close>
  | NewPage
  | SetViewport
  | SetUserAgent
  | SetExtraHTTPHeaders
  | Goto string                  \<comment> \<open>\<open>page.goto(url, {waitUntil, timeout: 90000})\<close>\<close>
  | MouseMove
  | KeyboardPress
  | PageScreenshot
  | Pa11yTest string             \<comment> \<open>Pa11y run with the given \<open>standard\<close>\<close>
  | AddScriptTag
  | AxeRun string                \<comment> \<open>\<open>axe.run\<close> restricted to the given tag\<close>
  | Capture capture_id "dom_call list"
  | Content                      \<comment> \<open>\<open>page.content()\<close>\<close>
  | BodyText                     \<comment> \<open>\<open>page.evaluate\<close> of the trimmed \<open>innerText\<close> of the body\<close>
  | Close                        \<comment> \<open>\<open>browser.close()\<close>\<close>

record env =
  isIPv4 :: "string \<Rightarrow> bool"
  isIPv6 :: "string \<Rightarrow> bool"
  url_hostname :: "string \<Rightarrow> js_error + string"
  dns_lookup :: "string \<Rightarrow> js_error + string list"
  browser :: "call \<Rightarrow> js_error + unit"
  page_screenshot :: "js_error + string"
  pa11y_test :: "string \<Rightarrow> js_error + pa11y_result"
  axe_run :: "string \<Rightarrow> js_error + axe_result"
  capture_page :: "capture_id \<Rightarrow> dom"
  page_content :: "js_error + string"
  body_innerText :: "js_error + string"

text \<open>The local variables of \<open>runScan\<close> that its \<open>catch\<close> block reads, and the calls made.\<close>

record scan_state =
  trace :: "call list"
  pa11yResult :: "pa11y_result option"
  axeResults :: "axe_result option"
  pa11yIssuesWithScreens :: "issue_with_screen list"
  axeViolationsWithScreens :: "rule_with_screens list"
  pa11yPassedWithScreens :: "string list"

definition initial_state :: scan_state where
  "initial_state =
     \<lparr>trace = [], pa11yResult = None, axeResults = None, pa11yIssuesWithScreens = [],
      axeViolationsWithScreens = [], pa11yPassedWithScreens = []\<rparr>"

definition call :: "call \<Rightarrow> js_error + 'a \<Rightarrow> (scan_state, 'a) io" where
  "call c answer s = (answer, s\<lparr>trace := trace s @ [c]\<rparr>)"

definition modify :: "(scan_state \<Rightarrow> scan_state) \<Rightarrow> (scan_state, unit) io" where
  "modify f s = (Inr (), f s)"

definition get_state :: "(scan_state, scan_state) io" where
  "get_state s = (Inr s, s)"

definition try_finally :: "('s, 'a) io \<Rightarrow> ('s, unit) io \<Rightarrow> ('s, 'a) io" where
  \<comment> \<open>\<open>try { ... } finally { ... }\<close>: an exception of the \<open>finally\<close> block replaces the outcome\<close>
  "try_finally m f s =
     (case m s of (r, s') \<Rightarrow> (case f s' of (Inl e, s'') \<Rightarrow> (Inl e, s'') | (Inr _, s'') \<Rightarrow> (r, s'')))"

definition forbidden_message :: string where
  "forbidden_message = ''Scanning internal/private IP addresses is not allowed for security reasons.''"

definition invalid_message :: string where
  "invalid_message = ''Invalid or unreachable domain.''"

definition cloudflare_message :: string where
  "cloudflare_message = ''Cloudflare protection detected. Automated scans are not possible for this site. Please whitelist the Google Cloud Platform (GCP) IP range in your Cloudflare dashboard to allow scans.''"

definition ssrf_protection :: "env \<Rightarrow> string \<Rightarrow> (scan_state, unit) io" where
  "ssrf_protection env url =
     try_catch
       (bind (call (ParseUrl url) (url_hostname env url)) (\<lambda>hostname.
        bind (call (DnsLookup hostname) (dns_lookup env hostname)) (\<lambda>addresses.
          if list_ex (isPrivateIp (isIPv4 env) (isIPv6 env)) addresses
          then throw (Error None forbidden_message)
          else return ())))
       (\<lambda>e. if err_code e = Some ''ENOTFOUND''
            then throw (Error None invalid_message)
            else throw e)"

definition prepare_page :: "env \<Rightarrow> string \<Rightarrow> (scan_state, unit) io" where
  "prepare_page env url =
     bind (call NewPage (browser env NewPage)) (\<lambda>_.
     bind (call SetViewport (browser env SetViewport)) (\<lambda>_.
     bind (call SetUserAgent (browser env SetUserAgent)) (\<lambda>_.
     bind (call SetExtraHTTPHeaders (browser env SetExtraHTTPHeaders)) (\<lambda>_.
     bind (call (Goto url) (browser env (Goto url))) (\<lambda>_.
     bind (call MouseMove (browser env MouseMove)) (\<lambda>_.
     call KeyboardPress (browser env KeyboardPress)))))))"

definition take_page_screenshot :: "env \<Rightarrow> (scan_state, string option) io" where
  "take_page_screenshot env =
     try_catch
       (bind (call PageScreenshot (page_screenshot env)) (\<lambda>shot. return (Some shot)))
       (\<lambda>e. return None)"

definition pa11yStandard :: "string \<Rightarrow> string" where
  "pa11yStandard wcagLevel = (if wcagLevel = ''AAA'' then ''WCAG2AAA'' else ''WCAG2AA'')"

definition axeTag :: "string \<Rightarrow> string" where
  "axeTag wcagLevel = (if wcagLevel = ''AAA'' then ''wcag2aaa'' else ''wcag2aa'')"

definition pa11y_fallback :: "string \<Rightarrow> pa11y_result" where
  "pa11y_fallback msg =
     \<lparr>res_issues = Some [], res_passed = Some [], res_notices = Some [],
      res_warnings = Some [], res_error = Some msg\<rparr>"

definition axe_fallback :: "string \<Rightarrow> axe_result" where
  "axe_fallback msg =
     \<lparr>res_violations = Some [], res_passes = Some [], res_incomplete = Some [],
      res_axe_error = Some msg\<rparr>"

definition run_pa11y :: "env \<Rightarrow> string \<Rightarrow> (scan_state, unit) io" where
  "run_pa11y env standard =
     try_catch
       (bind (call (Pa11yTest standard) (pa11y_test env standard))
          (\<lambda>r. modify (\<lambda>s. s\<lparr>pa11yResult := Some r\<rparr>)))
       (\<lambda>pa11yError. modify (\<lambda>s. s\<lparr>pa11yResult := Some (pa11y_fallback (err_message pa11yError))\<rparr>))"

definition run_axe :: "env \<Rightarrow> string \<Rightarrow> (scan_state, unit) io" where
  "run_axe env tag =
     try_catch
       (bind (call AddScriptTag (browser env AddScriptTag)) (\<lambda>_.
        bind (call (AxeRun tag) (axe_run env tag))
          (\<lambda>r. modify (\<lambda>s. s\<lparr>axeResults := Some r\<rparr>))))
       (\<lambda>axeError. modify (\<lambda>s. s\<lparr>axeResults := Some (axe_fallback (err_message axeError))\<rparr>))"

text \<open>
  Attaching evidence. \<open>capture\<close> is one call of \<open>getElementScreenshot(page, selector)\<close>
  (no options object). A selector is skipped when it is falsy: absent or empty.
\<close>

definition capture :: "env \<Rightarrow> capture_id \<Rightarrow> string \<Rightarrow> (scan_state, string option) io" where
  "capture env cid selector s =
     (case getElementScreenshot (capture_page env cid) selector no_options [] of
        (r, h) \<Rightarrow> (r, s\<lparr>trace := trace s @ [Capture cid h]\<rparr>))"

fun issues_with_screens ::
  "env \<Rightarrow> nat \<Rightarrow> pa11y_issue list \<Rightarrow> (scan_state, issue_with_screen list) io" where
  "issues_with_screens env i [] = return []"
| "issues_with_screens env i (issue # rest) =
     bind (case issue_selector issue of
             None \<Rightarrow> return None
           | Some selector \<Rightarrow>
               if selector = [] then return None else capture env (IssueCapture i) selector)
       (\<lambda>screenshot.
     bind (issues_with_screens env (i + 1) rest) (\<lambda>more.
     return (\<lparr>the_issue = issue, issue_screenshot = screenshot\<rparr> # more)))"

definition node_selector :: "axe_node \<Rightarrow> string option" where
  \<comment> \<open>\<open>(node.target && node.target[0]) || null\<close>\<close>
  "node_selector node =
     (case node_target node of
        None \<Rightarrow> None
      | Some [] \<Rightarrow> None
      | Some (t # ts) \<Rightarrow> if t = [] then None else Some t)"

fun nodes_with_screens ::
  "env \<Rightarrow> nat \<Rightarrow> nat \<Rightarrow> axe_node list \<Rightarrow> (scan_state, node_with_screen list) io" where
  "nodes_with_screens env v i [] = return []"
| "nodes_with_screens env v i (node # rest) =
     bind (case node_selector node of
             None \<Rightarrow> return None
           | Some selector \<Rightarrow> capture env (NodeCapture v i) selector)
       (\<lambda>screenshot.
     bind (nodes_with_screens env v (i + 1) rest) (\<lambda>more.
     return (\<lparr>the_node = node, node_screenshot = screenshot\<rparr> # more)))"

fun violations_with_screens ::
  "env \<Rightarrow> nat \<Rightarrow> axe_rule list \<Rightarrow> (scan_state, rule_with_screens list) io" where
  "violations_with_screens env v [] = return []"
| "violations_with_screens env v (violation # rest) =
     bind (nodes_with_screens env v 0 (rule_nodes violation)) (\<lambda>nodesWithScreens.
     bind (violations_with_screens env (v + 1) rest) (\<lambda>more.
     return (\<lparr>the_rule_id = rule_id violation, the_nodes = nodesWithScreens\<rparr> # more)))"

definition null_screens :: "axe_rule \<Rightarrow> rule_with_screens" where
  "null_screens pass =
     \<lparr>the_rule_id = rule_id pass,
      the_nodes = map (\<lambda>node. \<lparr>the_node = node, node_screenshot = None\<rparr>) (rule_nodes pass)\<rparr>"

definition or_empty :: "'a list option \<Rightarrow> 'a list" where
  \<comment> \<open>\<open>xs || []\<close>\<close>
  "or_empty xs = (case xs of None \<Rightarrow> [] | Some l \<Rightarrow> l)"

definition null_deref :: js_error where
  \<comment> \<open>the TypeError of reading a property of \<open>null\<close>\<close>
  "null_deref = Error None ''Cannot read properties of null''"

definition read_pa11yResult :: "(scan_state, pa11y_result) io" where
  "read_pa11yResult s = (case pa11yResult s of None \<Rightarrow> (Inl null_deref, s) | Some r \<Rightarrow> (Inr r, s))"

definition read_axeResults :: "(scan_state, axe_result) io" where
  "read_axeResults s = (case axeResults s of None \<Rightarrow> (Inl null_deref, s) | Some r \<Rightarrow> (Inr r, s))"

definition attach_evidence :: "env \<Rightarrow> (scan_state, rule_with_screens list) io" where
  \<comment> \<open>from "Process Pa11y issues with screenshots" to "Process Axe passes WITHOUT
      screenshots"; yields \<open>axePassesWithScreens\<close>\<close>
  "attach_evidence env =
     bind read_pa11yResult (\<lambda>pr.
     bind (issues_with_screens env 0 (or_empty (res_issues pr))) (\<lambda>iss.
     bind (modify (\<lambda>s. s\<lparr>pa11yIssuesWithScreens := iss\<rparr>)) (\<lambda>_.
     bind (modify (\<lambda>s. s\<lparr>pa11yPassedWithScreens := or_empty (res_passed pr)\<rparr>)) (\<lambda>_.
     bind read_axeResults (\<lambda>ar.
     bind (violations_with_screens env 0 (or_empty (res_violations ar))) (\<lambda>vs.
     bind (modify (\<lambda>s. s\<lparr>axeViolationsWithScreens := vs\<rparr>)) (\<lambda>_.
     return (map null_screens (or_empty (res_passes ar))))))))))"

definition cloudflare_detection :: "env \<Rightarrow> (scan_state, unit) io" where
  "cloudflare_detection env =
     bind (call Content (page_content env)) (\<lambda>pageContent.
     bind (call BodyText (body_innerText env)) (\<lambda>bodyText.
       if challenge_detected pageContent bodyText
       then throw (Error None cloudflare_message)
       else return ()))"

definition pa11y_section_of :: "pa11y_result option \<Rightarrow> issue_with_screen list \<Rightarrow> string list \<Rightarrow> pa11y_section" where
  \<comment> \<open>\<open>{...pa11yResult, issues: pa11yIssuesWithScreens, passed: pa11yPassedWithScreens}\<close>\<close>
  "pa11y_section_of pr iss pas =
     \<lparr>issues = iss, passed = pas,
      notices = (case pr of None \<Rightarrow> None | Some r \<Rightarrow> res_notices r),
      warnings = (case pr of None \<Rightarrow> None | Some r \<Rightarrow> res_warnings r),
      pa11y_error = (case pr of None \<Rightarrow> None | Some r \<Rightarrow> res_error r)\<rparr>"

definition axe_section_of :: "axe_result \<Rightarrow> rule_with_screens list \<Rightarrow> passes_field \<Rightarrow> axe_section" where
  \<comment> \<open>\<open>{...axeResults, violations: ..., passes: ...}\<close> or \<open>{...axeResults, violations: ...}\<close>\<close>
  "axe_section_of ar vs ps =
     \<lparr>violations = vs, passes = ps, incomplete = res_incomplete ar, axe_error = res_axe_error ar\<rparr>"

definition error_only :: "string \<Rightarrow> axe_result" where
  \<comment> \<open>\<open>{ error: e.message }\<close>\<close>
  "error_only msg =
     \<lparr>res_violations = None, res_passes = None, res_incomplete = None, res_axe_error = Some msg\<rparr>"

definition scan_page :: "env \<Rightarrow> string \<Rightarrow> string \<Rightarrow> (scan_state, scan_result) io" where
  \<comment> \<open>the body of the \<open>try\<close> block that follows the launch\<close>
  "scan_page env url wcagLevel =
     bind (prepare_page env url) (\<lambda>_.
     bind (take_page_screenshot env) (\<lambda>pageScreenshot.
     bind (run_pa11y env (pa11yStandard wcagLevel)) (\<lambda>_.
     bind (run_axe env (axeTag wcagLevel)) (\<lambda>_.
     bind (attach_evidence env) (\<lambda>axePassesWithScreens.
     bind (cloudflare_detection env) (\<lambda>_.
     bind get_state (\<lambda>s.
     bind read_axeResults (\<lambda>ar.
     return (Complete
       (pa11y_section_of (pa11yResult s) (pa11yIssuesWithScreens s) (pa11yPassedWithScreens s))
       (axe_section_of ar (axeViolationsWithScreens s) (WithNullScreens axePassesWithScreens))
       (case pageScreenshot of
          None \<Rightarrow> None
        | Some shot \<Rightarrow> if shot = [] then None else Some (data_uri shot)))))))))))"

definition scan_caught :: "js_error \<Rightarrow> (scan_state, scan_result) io" where
  \<comment> \<open>the \<open>catch\<close> block\<close>
  "scan_caught e =
     bind (modify (\<lambda>s. s\<lparr>axeResults :=
             Some (case axeResults s of None \<Rightarrow> error_only (err_message e) | Some r \<Rightarrow> r)\<rparr>)) (\<lambda>_.
     bind get_state (\<lambda>s.
     bind read_axeResults (\<lambda>ar.
     return (Caught
       (pa11y_section_of (pa11yResult s) (pa11yIssuesWithScreens s) (pa11yPassedWithScreens s))
       (axe_section_of ar (axeViolationsWithScreens s) (AsGiven (res_passes ar)))))))"

definition default_level :: "string option \<Rightarrow> string" where
  \<comment> \<open>the default parameter \<open>wcagLevel = 'AA'\<close>: taken when the argument is omitted\<close>
  "default_level arg = (case arg of None \<Rightarrow> ''AA'' | Some w \<Rightarrow> w)"

definition runScan_io :: "env \<Rightarrow> string \<Rightarrow> string option \<Rightarrow> (scan_state, scan_result) io" where
  "runScan_io env url wcagLevel =
     bind (ssrf_protection env url) (\<lambda>_.
     bind (call Launch (browser env Launch)) (\<lambda>_.
     try_finally
       (try_catch (scan_page env url (default_level wcagLevel)) scan_caught)
       (call Close (browser env Close))))"

definition runScan :: "env \<Rightarrow> string \<Rightarrow> string option \<Rightarrow> (js_error + scan_result) \<times> call list" where
  \<comment> \<open>the outcome (\<open>Inl\<close>: the promise rejects) and the calls made, in order\<close>
  "runScan env url wcagLevel =
     (case runScan_io env url wcagLevel initial_state of (r, s) \<Rightarrow> (r, trace s))"

section \<open>Job submission and the daily limit\<close>

text \<open>
  The reports collection of db.js, oldest insertion first. \<open>createdAt\<close> is a Date, taken
  as its number of milliseconds since the epoch, which is how the subtraction in
  \<open>canScanToday\<close> reads it. \<open>conn\<close> is what \<open>ensureConnection\<close> does: \<open>Some e\<close> when it
  rejects with \<open>e\<close>.
\<close>

record report =
  report_url :: string
  report_email :: string
  report_type :: string
  report_status :: string
  createdAt :: int

text \<open>
  \<open>findOne(...).sort({createdAt: -1})\<close>: a matching report with the greatest
  \<open>createdAt\<close>; among reports of equal date the later inserted one is taken here (the
  date, which is all \<open>canScanToday\<close> reads, is the same for each of them).
\<close>

fun newest :: "report list \<Rightarrow> report option" where
  "newest [] = None"
| "newest (r # rs) =
     (case newest rs of
        None \<Rightarrow> Some r
      | Some r' \<Rightarrow> if createdAt r \<le> createdAt r' then Some r' else Some r)"

definition canScanToday :: "js_error option \<Rightarrow> report list \<Rightarrow> int \<Rightarrow> string \<Rightarrow> js_error + bool" where
  "canScanToday conn db now email =
     (case conn of
        Some e \<Rightarrow> Inl e
      | None \<Rightarrow>
          (case newest (filter (\<lambda>r. report_email r = email \<and> report_type r = ''public'') db) of
             None \<Rightarrow> Inr True
           | Some lastReport \<Rightarrow> Inr (now - createdAt lastReport > 24 * 60 * 60 * 1000)))"

definition saveReport ::
  "js_error option \<Rightarrow> int \<Rightarrow> string \<Rightarrow> string \<Rightarrow> string \<Rightarrow> report list \<Rightarrow> js_error + nat \<times> report list" where
  \<comment> \<open>\<open>new Report({url, email, type, status: 'pending'}).save()\<close>, stamped \<open>created\<close> by the
      schema default; yields the new report's identity and the collection\<close>
  "saveReport conn created url email type db =
     (case conn of
        Some e \<Rightarrow> Inl e
      | None \<Rightarrow>
          Inr (length db,
               db @ [\<lparr>report_url = url, report_email = email, report_type = type,
                      report_status = ''pending'', createdAt = created\<rparr>]))"

datatype response =
    BadRequest              \<comment> \<open>400, "Missing URL or email"\<close>
  | TooManyRequests         \<comment> \<open>429, "Scan limit reached for today"\<close>
  | ServerError             \<comment> \<open>500\<close>
  | Accepted nat            \<comment> \<open>\<open>{reportId}\<close>\<close>

definition falsy :: "string option \<Rightarrow> bool" where
  \<comment> \<open>\<open>!v\<close> for a body field: absent or the empty string\<close>
  "falsy v = (v = None \<or> v = Some [])"

text \<open>
  The handlers of index.js up to their response: the body's \<open>url\<close> and \<open>email\<close>, the
  clock read by \<open>canScanToday\<close> (\<open>now\<close>) and at the creation of the report
  (\<open>created\<close>). The scan that an accepted request starts afterwards changes the status and
  the result of the new report only.
\<close>

definition public_scan ::
  "js_error option \<Rightarrow> int \<Rightarrow> int \<Rightarrow> string option \<Rightarrow> string option \<Rightarrow> report list \<Rightarrow> response \<times> report list" where
  "public_scan conn now created url email db =
     (if falsy url \<or> falsy email then (BadRequest, db)
      else
        (case canScanToday conn db now (or_empty email) of
           Inl e \<Rightarrow> (ServerError, db)
         | Inr allowed \<Rightarrow>
             if \<not> allowed then (TooManyRequests, db)
             else
               (case saveReport conn created (or_empty url) (or_empty email) ''public'' db of
                  Inl e \<Rightarrow> (ServerError, db)
                | Inr (reportId, db') \<Rightarrow> (Accepted reportId, db'))))"

definition admin_scan ::
  "js_error option \<Rightarrow> int \<Rightarrow> string option \<Rightarrow> string option \<Rightarrow> report list \<Rightarrow> response \<times> report list" where
  \<comment> \<open>behind the authentication middleware\<close>
  "admin_scan conn created url email db =
     (if falsy url \<or> falsy email then (BadRequest, db)
      else
        (case saveReport conn created (or_empty url) (or_empty email) ''admin'' db of
           Inl e \<Rightarrow> (ServerError, db)
         | Inr (reportId, db') \<Rightarrow> (Accepted reportId, db')))"

section \<open>Notions used by the properties\<close>

text \<open>
  The bounds of the fallback ladder on the calls \<open>ext\<close> that a capture adds to the
  history, when its loop stands at iteration \<open>a\<close>: tries on the selector, tries on the
  selector of its parent, no other selector, viewport screenshots, calls in all (an
  iteration makes at most seven).
\<close>

definition ladder_bound :: "string \<Rightarrow> options \<Rightarrow> nat \<Rightarrow> dom_call list \<Rightarrow> bool" where
  "ladder_bound sel opts a ext =
     (count_list ext (Query sel) \<le> nat (max_attempts opts - int a) \<and>
      count_list ext (Query (parent_selector sel))
        \<le> (if include_parent opts then nat (max_attempts opts) else 0) \<and>
      (\<forall>s. Query s \<in> set ext \<longrightarrow> s = sel \<or> s = parent_selector sel) \<and>
      count_list ext ViewportScreenshot \<le> 1 \<and>
      length ext \<le> 7 * nat (max_attempts opts - int a)
                    + (if include_parent opts then 7 * nat (max_attempts opts) else 0) + 1)"

text \<open>
  A page for the fourth end-to-end scenario: \<open>#btn\<close> is element 1, 4px wide; its parent
  is element 2, 200px wide. \<open>#btn > ..\<close> is not a selector of CSS (\<open>..\<close> is no simple
  selector), so \<open>querySelector\<close>, and with it \<open>page.$\<close>, throws a SyntaxError on it.
\<close>

definition small_button_page :: dom where
  "small_button_page =
     \<lparr>query = (\<lambda>h sel. if sel = ''#btn'' then Inr (Some 1)
                       else Inl (Error None ''SyntaxError: not a valid selector'')),
      boundingBox = (\<lambda>h el.
        if el = 1 then Inr (Some \<lparr>box_x = 100, box_y = 50, box_width = 4, box_height = 30\<rparr>)
        else Inr (Some \<lparr>box_x = 80, box_y = 40, box_width = 200, box_height = 60\<rparr>)),
      evaluateParent = (\<lambda>h sel. Inr (Some 2)),
      dispose = (\<lambda>h el. Inr ()),
      evaluate = (\<lambda>h c. Inr ()),
      screenshot_clip = (\<lambda>h b. Inr ''Q0xJUA''),
      screenshot_viewport = (\<lambda>h. Inr ''VklFVw'')\<rparr>"

text \<open>A page on which no selector matches and nothing throws.\<close>

definition empty_page :: dom where
  "empty_page =
     \<lparr>query = (\<lambda>h sel. Inr None),
      boundingBox = (\<lambda>h el. Inr None),
      evaluateParent = (\<lambda>h sel. Inr None),
      dispose = (\<lambda>h el. Inr ()),
      evaluate = (\<lambda>h c. Inr ()),
      screenshot_clip = (\<lambda>h b. Inr []),
      screenshot_viewport = (\<lambda>h. Inr [])\<rparr>"

text \<open>Reading a scan result: its two sections, and a finding without its evidence.\<close>

fun pa11y :: "scan_result \<Rightarrow> pa11y_section" where
  "pa11y (Complete p a shot) = p"
| "pa11y (Caught p a) = p"

fun axe :: "scan_result \<Rightarrow> axe_section" where
  "axe (Complete p a shot) = a"
| "axe (Caught p a) = a"

definition rule_of :: "rule_with_screens \<Rightarrow> axe_rule" where
  "rule_of r = \<lparr>rule_id = the_rule_id r, rule_nodes = map the_node (the_nodes r)\<rparr>"

fun passes_rules :: "passes_field \<Rightarrow> axe_rule list" where
  "passes_rules (WithNullScreens rs) = map rule_of rs"
| "passes_rules (AsGiven rs) = or_empty rs"

fun is_capture :: "call \<Rightarrow> bool" where
  "is_capture (Capture cid h) = True"
| "is_capture c = False"

text \<open>
  What the two \<open>try\<close> blocks of the engines leave in \<open>pa11yResult\<close> and \<open>axeResults\<close>,
  and what the block of axe-core as a whole yields (the script tag, then the run).
\<close>

definition axe_outcome :: "env \<Rightarrow> string \<Rightarrow> js_error + axe_result" where
  "axe_outcome env tag =
     (case browser env AddScriptTag of Inl e \<Rightarrow> Inl e | Inr u \<Rightarrow> axe_run env tag)"

definition pa11y_or_fallback :: "env \<Rightarrow> string \<Rightarrow> pa11y_result" where
  "pa11y_or_fallback env standard =
     (case pa11y_test env standard of Inl e \<Rightarrow> pa11y_fallback (err_message e) | Inr r \<Rightarrow> r)"

definition axe_or_fallback :: "env \<Rightarrow> string \<Rightarrow> axe_result" where
  "axe_or_fallback env tag =
     (case axe_outcome env tag of Inl e \<Rightarrow> axe_fallback (err_message e) | Inr r \<Rightarrow> r)"

definition axe_calls :: "env \<Rightarrow> string \<Rightarrow> call list" where
  "axe_calls env tag =
     (case browser env AddScriptTag of Inl e \<Rightarrow> [AddScriptTag] | Inr u \<Rightarrow> [AddScriptTag, AxeRun tag])"

text \<open>
  The target passes the validator: the URL parses, its host resolves, and no resolved
  address is classified private.
\<close>

definition target_allowed :: "env \<Rightarrow> string \<Rightarrow> string \<Rightarrow> bool" where
  "target_allowed env url host =
     (url_hostname env url = Inr host \<and>
      (case dns_lookup env host of
         Inl e \<Rightarrow> False
       | Inr addresses \<Rightarrow> \<not> list_ex (isPrivateIp (isIPv4 env) (isIPv6 env)) addresses))"

definition all_succeed :: "env \<Rightarrow> call list \<Rightarrow> bool" where
  "all_succeed env cs = list_all (\<lambda>c. browser env c = Inr ()) cs"

text \<open>
  What the detection step does, as a function of what the page answers: its outcome
  (\<open>Inl\<close>: it throws) and the calls it makes. And the object \<open>runScan\<close> returns once
  both engines have run, given the issues and the violations with their evidence.
\<close>

definition detection_outcome :: "env \<Rightarrow> (js_error + unit) \<times> call list" where
  "detection_outcome env =
     (case page_content env of
        Inl e \<Rightarrow> (Inl e, [Content])
      | Inr pageContent \<Rightarrow>
          (case body_innerText env of
             Inl e \<Rightarrow> (Inl e, [Content, BodyText])
           | Inr bodyText \<Rightarrow>
               (if challenge_detected pageContent bodyText
                then Inl (Error None cloudflare_message) else Inr (),
                [Content, BodyText])))"

definition audit_result ::
  "env \<Rightarrow> string \<Rightarrow> issue_with_screen list \<Rightarrow> rule_with_screens list \<Rightarrow> scan_result" where
  "audit_result env lvl iss vs =
     (let pr = pa11y_or_fallback env (pa11yStandard lvl);
          ar = axe_or_fallback env (axeTag lvl);
          section = pa11y_section_of (Some pr) iss (or_empty (res_passed pr))
      in case fst (detection_outcome env) of
           Inl e \<Rightarrow> Caught section (axe_section_of ar vs (AsGiven (res_passes ar)))
         | Inr u \<Rightarrow>
             Complete section
               (axe_section_of ar vs (WithNullScreens (map null_screens (or_empty (res_passes ar)))))
               (case page_screenshot env of
                  Inl e \<Rightarrow> None
                | Inr shot \<Rightarrow> if shot = [] then None else Some (data_uri shot)))"

definition page_calls :: "string \<Rightarrow> call list" where
  \<comment> \<open>from the new page to the end of the synthetic interaction\<close>
  "page_calls url =
     [NewPage, SetViewport, SetUserAgent, SetExtraHTTPHeaders, Goto url, MouseMove, KeyboardPress]"

text \<open>
  Environments for the scenarios. In \<open>example_env\<close> a public site is scanned and
  everything succeeds: Pa11y reports one issue, axe-core one violation, and the page is
  no challenge page. The others differ from it in one answer each.
\<close>

definition example_markup :: string where
  "example_markup = ''<html><head><title>Example Domain</title></head><body><h1>Example Domain</h1><p>This domain is for use in illustrative examples.</p></body></html>''"

definition example_text :: string where
  "example_text = ''Example Domain This domain is for use in illustrative examples.''"

definition heading_issue :: pa11y_issue where
  "heading_issue = \<lparr>issue_code = ''WCAG2AA.Principle1.Guideline1_3.1_3_1.H42'', issue_selector = Some ''h1''\<rparr>"

definition contrast_violation :: axe_rule where
  "contrast_violation =
     \<lparr>rule_id = ''color-contrast'', rule_nodes = [\<lparr>node_html = ''<p>'', node_target = Some [''p'']\<rparr>]\<rparr>"

definition example_env :: env where
  "example_env =
     \<lparr>isIPv4 = net_isIPv4,
      isIPv6 = (\<lambda>ip. False),
      url_hostname = (\<lambda>url. Inr ''example.com''),
      dns_lookup = (\<lambda>host. Inr [''93.184.216.34'']),
      browser = (\<lambda>c. Inr ()),
      page_screenshot = Inr ''VklFVw'',
      pa11y_test = (\<lambda>standard. Inr \<lparr>res_issues = Some [heading_issue], res_passed = None,
                                       res_notices = None, res_warnings = None, res_error = None\<rparr>),
      axe_run = (\<lambda>tag. Inr \<lparr>res_violations = Some [contrast_violation], res_passes = Some [],
                             res_incomplete = Some [], res_axe_error = None\<rparr>),
      capture_page = (\<lambda>cid. empty_page),
      page_content = Inr example_markup,
      body_innerText = Inr example_text\<rparr>"

definition challenge_markup :: string where
  "challenge_markup = ''<html><body>checking your browser before accessing example.com</body></html>''"

definition blocked_env :: env where
  \<comment> \<open>the third end-to-end scenario: a challenge page whose body text has length 8\<close>
  "blocked_env = example_env\<lparr>page_content := Inr challenge_markup, body_innerText := Inr ''checking''\<rparr>"

definition timeout_error :: js_error where
  "timeout_error = Error None ''Navigation timeout of 90000 ms exceeded''"

definition timeout_env :: env where
  \<comment> \<open>\<open>page.goto\<close> runs into its timeout\<close>
  "timeout_env =
     example_env\<lparr>browser := (\<lambda>c. case c of Goto url \<Rightarrow> Inl timeout_error | _ \<Rightarrow> Inr ())\<rparr>"

definition internal_env :: env where
  \<comment> \<open>the host resolves to 172.31.3.0, an address of 172.16/12\<close>
  "internal_env = example_env\<lparr>dns_lookup := (\<lambda>host. Inr [''172.31.3.0''])\<rparr>"

definition loopback_env :: env where
  \<comment> \<open>the host resolves to 127.0.0.1\<close>
  "loopback_env = example_env\<lparr>dns_lookup := (\<lambda>host. Inr [''127.0.0.1''])\<rparr>"

definition unresolvable_env :: env where
  \<comment> \<open>the resolver fails with ENOTFOUND\<close>
  "unresolvable_env =
     example_env\<lparr>dns_lookup := (\<lambda>host. Inl (Error (Some ''ENOTFOUND'') ''getaddrinfo ENOTFOUND''))\<rparr>"

definition pa11y_down_env :: env where
  \<comment> \<open>Pa11y throws, axe-core reports its violation\<close>
  "pa11y_down_env = example_env\<lparr>pa11y_test := (\<lambda>standard. Inl (Error None ''Pa11y timed out''))\<rparr>"

definition axe_down_env :: env where
  \<comment> \<open>the script tag of axe-core cannot be added, Pa11y reports its issue\<close>
  "axe_down_env =
     example_env\<lparr>browser := (\<lambda>c. case c of AddScriptTag \<Rightarrow> Inl (Error None ''net::ERR_BLOCKED'') | _ \<Rightarrow> Inr ())\<rparr>"

text \<open>
  The daily limit: the reports of the public kind that a requester has, the time of the
  most recent of them, and a day in milliseconds.
\<close>

definition public_reports :: "report list \<Rightarrow> string \<Rightarrow> report list" where
  "public_reports db email =
     filter (\<lambda>r. report_email r = email \<and> report_type r = ''public'') db"

definition most_recent :: "report list \<Rightarrow> int" where
  "most_recent rs = Max (createdAt ` set rs)"

definition day_ms :: int where
  "day_ms = 24 * 60 * 60 * 1000"

definition new_report :: "string \<Rightarrow> string \<Rightarrow> string \<Rightarrow> int \<Rightarrow> report" where
  "new_report url email type created =
     \<lparr>report_url = url, report_email = email, report_type = type,
      report_status = ''pending'', createdAt = created\<rparr>"

definition one_public_report :: "report list" where
  \<comment> \<open>a collection with one public report of ann@example.com and one admin report\<close>
  "one_public_report =
     [new_report ''https://example.com'' ''ann@example.com'' ''public'' 1700000000000,
      new_report ''https://example.com'' ''ann@example.com'' ''admin'' 1700050000000]"


section \<open>Evidence Capture: the fallback ladder\<close>

lemma attempt_calls:
  "attempt page sel opts h = (r, h') \<Longrightarrow>
   \<exists>ext. h' = h @ Query sel # ext \<and> (\<forall>s. Query s \<notin> set ext) \<and>
         ViewportScreenshot \<notin> set ext \<and> length ext \<le> 6"
  by (auto simp: attempt_def too_small_branch_def shoot_element_def bind_def return_def dom_call_def
           split: sum.splits option.splits if_splits prod.splits)

lemma viewport_fallback_calls:
  "\<exists>r. viewport_fallback page h = (Inr r, h @ [ViewportScreenshot])"
  by (auto simp: viewport_fallback_def try_catch_def bind_def return_def dom_call_def
           split: sum.splits prod.splits)

lemma parent_selector_neq [simp]: "parent_selector sel \<noteq> sel" "sel \<noteq> parent_selector sel"
  by (simp_all add: parent_selector_def)

text \<open>
  Every run of the loop returns (no exception leaves it), and the calls it makes obey the
  bounds of the ladder. By induction along the recursion of the loop.
\<close>

lemma ladder:
  "\<exists>r ext. getElementScreenshot_from page sel opts a h = (Inr r, h @ ext) \<and> ladder_bound sel opts a ext"
proof (induction page sel opts a h rule: getElementScreenshot_from.induct)
  case (1 page sel opts a h)
  show ?case
  proof (cases "int a < max_attempts opts")
    case False
    then show ?thesis
      by (simp add: getElementScreenshot_from.simps ladder_bound_def)
  next
    case lt: True
    obtain x h1 where att: "attempt page sel opts h = (x, h1)"
      by (cases "attempt page sel opts h") auto
    from attempt_calls [OF att] obtain e1 where
      h1: "h1 = h @ Query sel # e1" and noq: "\<forall>s. Query s \<notin> set e1"
      and nov: "ViewportScreenshot \<notin> set e1" and len: "length e1 \<le> 6"
      by blast
    have c0: "\<And>s. count_list e1 (Query s) = 0" using noq by (simp add: count_list_0_iff)
    have v0: "count_list e1 ViewportScreenshot = 0" using nov by (simp add: count_list_0_iff)
    have pos: "1 \<le> nat (max_attempts opts - int a)" using lt by simp
    show ?thesis
    proof (cases x)
      case (Inl e)
      show ?thesis
      proof (cases "int a = max_attempts opts - 1")
        case True
        obtain r where "viewport_fallback page h1 = (Inr r, h1 @ [ViewportScreenshot])"
          using viewport_fallback_calls by blast
        then have "getElementScreenshot_from page sel opts a h
                   = (Inr r, h @ (Query sel # e1 @ [ViewportScreenshot]))"
          using lt att Inl True h1 by (simp add: getElementScreenshot_from.simps)
        moreover have "ladder_bound sel opts a (Query sel # e1 @ [ViewportScreenshot])"
          using c0 v0 noq len pos by (auto simp: ladder_bound_def)
        ultimately show ?thesis by blast
      next
        case False
        from "1.IH"(1) [OF lt att [symmetric] Inl False]
        obtain r ext where
          rec: "getElementScreenshot_from page sel opts (a + 1) h1 = (Inr r, h1 @ ext)"
          and b: "ladder_bound sel opts (a + 1) ext" by blast
        have "getElementScreenshot_from page sel opts a h = (Inr r, h @ (Query sel # e1 @ ext))"
          using lt att Inl False h1 rec by (simp add: getElementScreenshot_from.simps)
        moreover have "ladder_bound sel opts a (Query sel # e1 @ ext)"
          using b c0 v0 noq len lt by (auto simp: ladder_bound_def)
        ultimately show ?thesis by blast
      qed
    next
      case (Inr res)
      show ?thesis
      proof (cases res)
        case (Value v)
        have "getElementScreenshot_from page sel opts a h = (Inr v, h @ (Query sel # e1))"
          using lt att Inr Value h1 by (simp add: getElementScreenshot_from.simps)
        moreover have "ladder_bound sel opts a (Query sel # e1)"
          using c0 v0 noq len pos by (auto simp: ladder_bound_def)
        ultimately show ?thesis by blast
      next
        case RetryParent
        have ip: "include_parent opts"
          using attempt_RetryParent_include_parent att Inr RetryParent by blast
        let ?opts' = "opts\<lparr>includeParent := Some False\<rparr>"
        have o': "\<not> include_parent ?opts'" "max_attempts ?opts' = max_attempts opts"
          by (simp_all add: include_parent_def max_attempts_def)
        from "1.IH"(2) [OF lt att [symmetric] Inr RetryParent]
        obtain r ext where
          rec: "getElementScreenshot_from page (parent_selector sel) ?opts' 0 h1 = (Inr r, h1 @ ext)"
          and b: "ladder_bound (parent_selector sel) ?opts' 0 ext" by blast
        have only: "\<forall>s. Query s \<in> set ext \<longrightarrow> s = parent_selector sel"
          using b o' by (auto simp: ladder_bound_def count_list_0_iff)
        then have nosel: "count_list ext (Query sel) = 0"
          by (auto simp: count_list_0_iff)
        have "getElementScreenshot_from page sel opts a h = (Inr r, h @ (Query sel # e1 @ ext))"
          using lt att Inr RetryParent h1 rec by (simp add: getElementScreenshot_from.simps)
        moreover have "ladder_bound sel opts a (Query sel # e1 @ ext)"
          using b o' ip c0 v0 noq len pos only nosel by (auto simp: ladder_bound_def)
        ultimately show ?thesis by blast
      qed
    qed
  qed
qed

lemma getElementScreenshot_never_throws:
  "\<exists>r h'. getElementScreenshot page sel opts h = (Inr r, h')"
  using ladder [of page sel opts 0 h] by (auto simp: getElementScreenshot_def)


text \<open>
  C8. For any selector, any options and any behaviour of the page (every DOM call may throw
  or not, depending on all that happened before), the capture returns a value, and on its
  way it makes at most \<open>maxAttempts\<close> tries on the selector, ascends at most once (the
  only other selector it ever tries is that of the parent, at most \<open>maxAttempts\<close> times,
  in the loop of the one recursive call), takes at most one screenshot of the whole
  viewport, and makes at most \<open>14 * maxAttempts + 1\<close> DOM calls in all.
\<close>

theorem C8_ladder_terminates_within_bounds:
  "\<exists>r h. getElementScreenshot page selector opts [] = (Inr r, h) \<and>
     count_list h (Query selector) \<le> nat (max_attempts opts) \<and>
     count_list h (Query (parent_selector selector)) \<le> nat (max_attempts opts) \<and>
     (\<forall>s. Query s \<in> set h \<longrightarrow> s = selector \<or> s = parent_selector selector) \<and>
     count_list h ViewportScreenshot \<le> 1 \<and>
     length h \<le> 14 * nat (max_attempts opts) + 1"
proof -
  obtain r ext where run: "getElementScreenshot_from page selector opts 0 [] = (Inr r, [] @ ext)"
    and b: "ladder_bound selector opts 0 ext"
    using ladder [of page selector opts 0 "[]"] by blast
  have "getElementScreenshot page selector opts [] = (Inr r, ext)"
    using run by (simp add: getElementScreenshot_def)
  moreover have "count_list ext (Query selector) \<le> nat (max_attempts opts)"
    and "count_list ext (Query (parent_selector selector)) \<le> nat (max_attempts opts)"
    and "\<forall>s. Query s \<in> set ext \<longrightarrow> s = selector \<or> s = parent_selector selector"
    and "count_list ext ViewportScreenshot \<le> 1"
    and "length ext \<le> 14 * nat (max_attempts opts) + 1"
    using b by (auto simp: ladder_bound_def split: if_splits)
  ultimately show ?thesis by blast
qed

theorem C8_ladder_witness:
  "\<exists>r h. getElementScreenshot small_button_page ''#btn'' no_options [] = (Inr r, h) \<and>
     count_list h (Query ''#btn'') \<le> 3 \<and>
     count_list h (Query ''#btn > ..'') \<le> 3 \<and>
     (\<forall>s. Query s \<in> set h \<longrightarrow> s = ''#btn'' \<or> s = ''#btn > ..'') \<and>
     count_list h ViewportScreenshot \<le> 1 \<and>
     length h \<le> 43"
  using C8_ladder_terminates_within_bounds [of small_button_page "''#btn''" no_options]
  by (simp add: max_attempts_def no_options_def parent_selector_def)

text \<open>
  C7. When the locator matches no element, that is when \<open>page.$\<close> resolves to \<open>null\<close> for
  the selector whenever it is asked, the capture returns \<open>null\<close> without throwing, after
  one query (after none when \<open>maxAttempts\<close> is not positive).
\<close>

theorem C7_no_element_gives_null:
  assumes "\<forall>h. query page h selector = Inr None"
  shows "getElementScreenshot page selector opts h0 =
           (Inr None, if 0 < max_attempts opts then h0 @ [Query selector] else h0)"
  using assms
  by (simp add: getElementScreenshot_def getElementScreenshot_from.simps attempt_def
        bind_def return_def dom_call_def)

theorem C7_no_element_witness:
  "(\<forall>h. query empty_page h ''#missing'' = Inr None) \<and>
   getElementScreenshot empty_page ''#missing'' no_options [] = (Inr None, [Query ''#missing''])"
proof -
  have h: "\<forall>h. query empty_page h ''#missing'' = Inr None"
    by (simp add: empty_page_def)
  show ?thesis
    using h C7_no_element_gives_null [OF h, of no_options "[]"]
    by (simp add: max_attempts_def no_options_def)
qed

text \<open>
  C3. On the page of the scenario (the element 4px wide, its parent 200px wide, parent
  fallback enabled by default) the capture inspects the parent once and then retries with
  the selector \<open>#btn > ..\<close>. The three tries on that selector throw, and what is returned
  is the screenshot of the whole viewport: no screenshot is clipped to the parent's box.
\<close>

theorem C3_parent_retry_ends_in_viewport_screenshot:
  "getElementScreenshot small_button_page ''#btn'' no_options [] =
     (Inr (Some (data_uri ''VklFVw'')),
      [Query ''#btn'', BoundingBox 1, EvaluateParent ''#btn'', BoundingBox 2, Dispose 2,
       Query ''#btn > ..'', Query ''#btn > ..'', Query ''#btn > ..'', ViewportScreenshot])"
  by (simp add: getElementScreenshot_def getElementScreenshot_from.simps attempt_def
        too_small_branch_def shoot_element_def viewport_fallback_def bind_def return_def
        try_catch_def dom_call_def small_button_page_def no_options_def min_size_def
        max_attempts_def include_parent_def viewport_padding_def parent_selector_def)

section \<open>Target Validator\<close>

text \<open>
  C2. The classifier does not return true exactly on the listed ranges. 172.31.3.0 lies in
  172.16/12, yet it is not classified private, whatever \<open>net.isIPv4\<close> and \<open>net.isIPv6\<close>
  say of it: the text \<open>172.31.3.0\<close> is greater than the text \<open>172.31.255.255\<close>. 172.2.0.0
  lies in none of the ranges, yet it is classified private: its text stands between
  \<open>172.16.0.0\<close> and \<open>172.31.255.255\<close>.
\<close>

theorem C2_classifier_differs_from_ranges:
  "dotted_octets ''172.31.3.0'' = Some [172, 31, 3, 0] \<and>
   private_ipv4_range [172, 31, 3, 0] \<and>
   isPrivateIp v4 v6 ''172.31.3.0'' = False \<and>
   dotted_octets ''172.2.0.0'' = Some [172, 2, 0, 0] \<and>
   private_ipv4_range [172, 2, 0, 0] = False \<and>
   isPrivateIp net_isIPv4 v6 ''172.2.0.0'' = True"
  by (simp add: isPrivateIp_def str_ge_def net_isIPv4_def dotted_octets_def octet_of_def
        decimal_value_def is_digit_def)

section \<open>Attaching evidence\<close>

lemma capture_ok:
  "\<exists>r h. capture env cid sel s = (Inr r, s\<lparr>trace := trace s @ [Capture cid h]\<rparr>)"
  using getElementScreenshot_never_throws [of "capture_page env cid" sel no_options "[]"]
  by (auto simp: capture_def)

lemma issues_with_screens_ok:
  "\<exists>iss caps. issues_with_screens env i xs s = (Inr iss, s\<lparr>trace := trace s @ caps\<rparr>) \<and>
     map the_issue iss = xs \<and> list_all is_capture caps"
proof (induction xs arbitrary: i s)
  case Nil
  show ?case by (rule exI [of _ "[]"], rule exI [of _ "[]"]) (simp add: return_def)
next
  case (Cons x xs)
  obtain shot c1 where first:
    "(case issue_selector x of None \<Rightarrow> return None
      | Some selector \<Rightarrow> if selector = [] then return None else capture env (IssueCapture i) selector) s
     = (Inr shot, s\<lparr>trace := trace s @ c1\<rparr>)" and c1: "list_all is_capture c1"
  proof (cases "issue_selector x")
    case None
    then show ?thesis using that [of None "[]"] by (simp add: return_def)
  next
    case (Some sel)
    show ?thesis
    proof (cases "sel = []")
      case True
      then show ?thesis using Some that [of None "[]"] by (simp add: return_def)
    next
      case False
      obtain r h where "capture env (IssueCapture i) sel s = (Inr r, s\<lparr>trace := trace s @ [Capture (IssueCapture i) h]\<rparr>)"
        using capture_ok by blast
      then show ?thesis using Some False that [of r "[Capture (IssueCapture i) h]"] by simp
    qed
  qed
  from Cons.IH [of "i + 1" "s\<lparr>trace := trace s @ c1\<rparr>"]
  obtain iss caps where rest:
    "issues_with_screens env (i + 1) xs (s\<lparr>trace := trace s @ c1\<rparr>) = (Inr iss, s\<lparr>trace := trace s @ c1 @ caps\<rparr>)"
    and m: "map the_issue iss = xs" and c2: "list_all is_capture caps"
    by auto
  have "issues_with_screens env i (x # xs) s =
          (Inr (\<lparr>the_issue = x, issue_screenshot = shot\<rparr> # iss), s\<lparr>trace := trace s @ (c1 @ caps)\<rparr>)"
    using first rest by (simp add: bind_def return_def)
  then show ?case using m c1 c2 by (intro exI [of _ "\<lparr>the_issue = x, issue_screenshot = shot\<rparr> # iss"] exI [of _ "c1 @ caps"]) simp
qed

lemma nodes_with_screens_ok:
  "\<exists>ns caps. nodes_with_screens env v i xs s = (Inr ns, s\<lparr>trace := trace s @ caps\<rparr>) \<and>
     map the_node ns = xs \<and> list_all is_capture caps"
proof (induction xs arbitrary: i s)
  case Nil
  show ?case by (rule exI [of _ "[]"], rule exI [of _ "[]"]) (simp add: return_def)
next
  case (Cons x xs)
  obtain shot c1 where first:
    "(case node_selector x of None \<Rightarrow> return None
      | Some selector \<Rightarrow> capture env (NodeCapture v i) selector) s
     = (Inr shot, s\<lparr>trace := trace s @ c1\<rparr>)" and c1: "list_all is_capture c1"
  proof (cases "node_selector x")
    case None
    then show ?thesis using that [of None "[]"] by (simp add: return_def)
  next
    case (Some sel)
    obtain r h where "capture env (NodeCapture v i) sel s = (Inr r, s\<lparr>trace := trace s @ [Capture (NodeCapture v i) h]\<rparr>)"
      using capture_ok by blast
    then show ?thesis using Some that [of r "[Capture (NodeCapture v i) h]"] by simp
  qed
  from Cons.IH [of "i + 1" "s\<lparr>trace := trace s @ c1\<rparr>"]
  obtain ns caps where rest:
    "nodes_with_screens env v (i + 1) xs (s\<lparr>trace := trace s @ c1\<rparr>) = (Inr ns, s\<lparr>trace := trace s @ c1 @ caps\<rparr>)"
    and m: "map the_node ns = xs" and c2: "list_all is_capture caps"
    by auto
  have "nodes_with_screens env v i (x # xs) s =
          (Inr (\<lparr>the_node = x, node_screenshot = shot\<rparr> # ns), s\<lparr>trace := trace s @ (c1 @ caps)\<rparr>)"
    using first rest by (simp add: bind_def return_def)
  then show ?case using m c1 c2 by (intro exI [of _ "\<lparr>the_node = x, node_screenshot = shot\<rparr> # ns"] exI [of _ "c1 @ caps"]) simp
qed

lemma violations_with_screens_ok:
  "\<exists>vs caps. violations_with_screens env v xs s = (Inr vs, s\<lparr>trace := trace s @ caps\<rparr>) \<and>
     map rule_of vs = xs \<and> list_all is_capture caps"
proof (induction xs arbitrary: v s)
  case Nil
  show ?case by (rule exI [of _ "[]"], rule exI [of _ "[]"]) (simp add: return_def)
next
  case (Cons x xs)
  obtain ns c1 where first:
    "nodes_with_screens env v 0 (rule_nodes x) s = (Inr ns, s\<lparr>trace := trace s @ c1\<rparr>)"
    and n: "map the_node ns = rule_nodes x" and c1: "list_all is_capture c1"
    using nodes_with_screens_ok by blast
  from Cons.IH [of "v + 1" "s\<lparr>trace := trace s @ c1\<rparr>"]
  obtain vs caps where rest:
    "violations_with_screens env (v + 1) xs (s\<lparr>trace := trace s @ c1\<rparr>) = (Inr vs, s\<lparr>trace := trace s @ c1 @ caps\<rparr>)"
    and m: "map rule_of vs = xs" and c2: "list_all is_capture caps"
    by auto
  have "violations_with_screens env v (x # xs) s =
          (Inr (\<lparr>the_rule_id = rule_id x, the_nodes = ns\<rparr> # vs), s\<lparr>trace := trace s @ (c1 @ caps)\<rparr>)"
    using first rest by (simp add: bind_def return_def)
  moreover have "rule_of \<lparr>the_rule_id = rule_id x, the_nodes = ns\<rparr> = x"
    using n by (simp add: rule_of_def)
  ultimately show ?case using m c1 c2
    by (intro exI [of _ "\<lparr>the_rule_id = rule_id x, the_nodes = ns\<rparr> # vs"] exI [of _ "c1 @ caps"])
       simp
qed

lemma passes_null_screens: "map rule_of (map null_screens ps) = ps"
  by (induction ps) (simp_all add: rule_of_def null_screens_def comp_def)

lemma attach_evidence_ok:
  assumes "pa11yResult s = Some pr" "axeResults s = Some ar"
  shows "\<exists>iss vs caps. attach_evidence env s =
           (Inr (map null_screens (or_empty (res_passes ar))),
            s\<lparr>trace := trace s @ caps, pa11yIssuesWithScreens := iss,
              pa11yPassedWithScreens := or_empty (res_passed pr),
              axeViolationsWithScreens := vs\<rparr>) \<and>
          map the_issue iss = or_empty (res_issues pr) \<and>
          map rule_of vs = or_empty (res_violations ar) \<and> list_all is_capture caps"
proof -
  obtain iss c1 where i: "issues_with_screens env 0 (or_empty (res_issues pr)) s = (Inr iss, s\<lparr>trace := trace s @ c1\<rparr>)"
    and mi: "map the_issue iss = or_empty (res_issues pr)" and c1: "list_all is_capture c1"
    using issues_with_screens_ok by blast
  let ?s1 = "s\<lparr>trace := trace s @ c1, pa11yIssuesWithScreens := iss, pa11yPassedWithScreens := or_empty (res_passed pr)\<rparr>"
  obtain vs c2 where v: "violations_with_screens env 0 (or_empty (res_violations ar)) ?s1 = (Inr vs, ?s1\<lparr>trace := trace ?s1 @ c2\<rparr>)"
    and mv: "map rule_of vs = or_empty (res_violations ar)" and c2: "list_all is_capture c2"
    using violations_with_screens_ok by blast
  have "attach_evidence env s =
           (Inr (map null_screens (or_empty (res_passes ar))),
            s\<lparr>trace := trace s @ (c1 @ c2), pa11yIssuesWithScreens := iss,
              pa11yPassedWithScreens := or_empty (res_passed pr),
              axeViolationsWithScreens := vs\<rparr>)"
    using assms i v
    by (simp add: attach_evidence_def bind_def return_def modify_def read_pa11yResult_def read_axeResults_def)
  then show ?thesis using mi mv c1 c2
    by (intro exI [of _ iss] exI [of _ vs] exI [of _ "c1 @ c2"]) simp
qed

section \<open>The stages of a scan\<close>

lemma ssrf_protection_allowed:
  "target_allowed env url host \<Longrightarrow>
   ssrf_protection env url s = (Inr (), s\<lparr>trace := trace s @ [ParseUrl url, DnsLookup host]\<rparr>)"
  by (auto simp: target_allowed_def ssrf_protection_def try_catch_def bind_def call_def return_def
           split: sum.splits)

lemma prepare_page_ok:
  "all_succeed env [NewPage, SetViewport, SetUserAgent, SetExtraHTTPHeaders, Goto url, MouseMove, KeyboardPress] \<Longrightarrow>
   prepare_page env url s =
     (Inr (), s\<lparr>trace := trace s @ [NewPage, SetViewport, SetUserAgent, SetExtraHTTPHeaders,
                                    Goto url, MouseMove, KeyboardPress]\<rparr>)"
  by (simp add: all_succeed_def prepare_page_def bind_def call_def)

lemma take_page_screenshot_eq:
  "take_page_screenshot env s =
     (Inr (case page_screenshot env of Inl e \<Rightarrow> None | Inr shot \<Rightarrow> Some shot),
      s\<lparr>trace := trace s @ [PageScreenshot]\<rparr>)"
  by (simp add: take_page_screenshot_def try_catch_def bind_def call_def return_def split: sum.splits)

lemma run_pa11y_eq:
  "run_pa11y env std s =
     (Inr (), s\<lparr>trace := trace s @ [Pa11yTest std], pa11yResult := Some (pa11y_or_fallback env std)\<rparr>)"
  by (simp add: run_pa11y_def pa11y_or_fallback_def try_catch_def bind_def call_def modify_def
           split: sum.splits)

lemma run_axe_eq:
  "run_axe env tag s =
     (Inr (), s\<lparr>trace := trace s @ axe_calls env tag, axeResults := Some (axe_or_fallback env tag)\<rparr>)"
  by (simp add: run_axe_def axe_or_fallback_def axe_outcome_def axe_calls_def try_catch_def
        bind_def call_def modify_def split: sum.splits)

lemma cloudflare_detection_eq:
  "cloudflare_detection env s =
     (fst (detection_outcome env), s\<lparr>trace := trace s @ snd (detection_outcome env)\<rparr>)"
  by (cases "page_content env"; cases "body_innerText env")
     (simp_all add: cloudflare_detection_def detection_outcome_def bind_def call_def throw_def return_def)


lemma audited_page:
  assumes ok: "all_succeed env (page_calls url)"
  shows "\<exists>iss vs caps s'.
     try_catch (scan_page env url lvl) scan_caught s = (Inr (audit_result env lvl iss vs), s') \<and>
     trace s' = trace s @ page_calls url @ [PageScreenshot, Pa11yTest (pa11yStandard lvl)]
                @ axe_calls env (axeTag lvl) @ caps @ snd (detection_outcome env) \<and>
     list_all is_capture caps \<and>
     map the_issue iss = or_empty (res_issues (pa11y_or_fallback env (pa11yStandard lvl))) \<and>
     map rule_of vs = or_empty (res_violations (axe_or_fallback env (axeTag lvl)))"
proof -
  let ?std = "pa11yStandard lvl" and ?tag = "axeTag lvl"
  let ?pr = "pa11y_or_fallback env ?std" and ?ar = "axe_or_fallback env ?tag"
  obtain t p0 a0 i0 v0 q0 where s: "s = \<lparr>trace = t, pa11yResult = p0, axeResults = a0,
      pa11yIssuesWithScreens = i0, axeViolationsWithScreens = v0, pa11yPassedWithScreens = q0\<rparr>"
    by (cases s) auto
  let ?pre = "t @ page_calls url @ [PageScreenshot, Pa11yTest ?std] @ axe_calls env ?tag"
  let ?s1 = "\<lparr>trace = ?pre, pa11yResult = Some ?pr, axeResults = Some ?ar,
      pa11yIssuesWithScreens = i0, axeViolationsWithScreens = v0, pa11yPassedWithScreens = q0\<rparr>"
  have r1: "pa11yResult ?s1 = Some ?pr" and r2: "axeResults ?s1 = Some ?ar" by simp_all
  from attach_evidence_ok [OF r1 r2, of env]
  obtain iss vs caps where
    att: "attach_evidence env ?s1 =
           (Inr (map null_screens (or_empty (res_passes ?ar))),
            \<lparr>trace = ?pre @ caps, pa11yResult = Some ?pr, axeResults = Some ?ar,
             pa11yIssuesWithScreens = iss, axeViolationsWithScreens = vs,
             pa11yPassedWithScreens = or_empty (res_passed ?pr)\<rparr>)"
    and mi: "map the_issue iss = or_empty (res_issues ?pr)"
    and mv: "map rule_of vs = or_empty (res_violations ?ar)" and caps: "list_all is_capture caps"
    by auto
  let ?s3 = "\<lparr>trace = (?pre @ caps) @ snd (detection_outcome env), pa11yResult = Some ?pr,
             axeResults = Some ?ar, pa11yIssuesWithScreens = iss, axeViolationsWithScreens = vs,
             pa11yPassedWithScreens = or_empty (res_passed ?pr)\<rparr>"
  have to_engines: "bind (prepare_page env url) (\<lambda>_.
     bind (take_page_screenshot env) (\<lambda>pageScreenshot.
     bind (run_pa11y env ?std) (\<lambda>_.
     bind (run_axe env ?tag) (\<lambda>_. k pageScreenshot)))) s
     = k (case page_screenshot env of Inl e \<Rightarrow> None | Inr shot \<Rightarrow> Some shot) ?s1"
    for k :: "string option \<Rightarrow> (scan_state, scan_result) io"
    using prepare_page_ok [of env url] ok
    by (simp add: s page_calls_def bind_def take_page_screenshot_eq run_pa11y_eq run_axe_eq)
  have page: "scan_page env url lvl s =
      (case fst (detection_outcome env) of
         Inl e \<Rightarrow> (Inl e, ?s3)
       | Inr u \<Rightarrow> (Inr (audit_result env lvl iss vs), ?s3))"
    unfolding scan_page_def to_engines
    using att
    by (simp add: audit_result_def Let_def bind_def cloudflare_detection_eq
          get_state_def read_axeResults_def return_def split: sum.splits)
  have "try_catch (scan_page env url lvl) scan_caught s = (Inr (audit_result env lvl iss vs), ?s3)"
    unfolding try_catch_def page
    by (simp add: scan_caught_def audit_result_def Let_def bind_def
          modify_def get_state_def read_axeResults_def return_def split: sum.splits)
  then show ?thesis using mi mv caps
    apply (rule_tac x = iss in exI)
    apply (rule_tac x = vs in exI)
    apply (rule_tac x = caps in exI)
    apply (rule_tac x = ?s3 in exI)
    apply (simp add: s)
    done
qed

lemma runScan_after_navigation:
  assumes allowed: "target_allowed env url host"
    and browser: "all_succeed env (Launch # page_calls url @ [Close])"
  shows "\<exists>iss vs caps.
     runScan env url w =
       (Inr (audit_result env (default_level w) iss vs),
        [ParseUrl url, DnsLookup host, Launch] @ page_calls url
          @ [PageScreenshot, Pa11yTest (pa11yStandard (default_level w))]
          @ axe_calls env (axeTag (default_level w)) @ caps @ snd (detection_outcome env) @ [Close]) \<and>
     list_all is_capture caps \<and>
     map the_issue iss = or_empty (res_issues (pa11y_or_fallback env (pa11yStandard (default_level w)))) \<and>
     map rule_of vs = or_empty (res_violations (axe_or_fallback env (axeTag (default_level w))))"
proof -
  let ?lvl = "default_level w"
  let ?s0 = "\<lparr>trace = [ParseUrl url, DnsLookup host, Launch], pa11yResult = None, axeResults = None,
              pa11yIssuesWithScreens = [], axeViolationsWithScreens = [], pa11yPassedWithScreens = []\<rparr>"
  have ok: "all_succeed env (page_calls url)" and launch: "browser env Launch = Inr ()"
    and close: "browser env Close = Inr ()"
    using browser by (simp_all add: all_succeed_def)
  from audited_page [OF ok, of ?lvl ?s0]
  obtain iss vs caps s' where
    run: "try_catch (scan_page env url ?lvl) scan_caught ?s0 = (Inr (audit_result env ?lvl iss vs), s')"
    and tr: "trace s' = [ParseUrl url, DnsLookup host, Launch] @ page_calls url
                @ [PageScreenshot, Pa11yTest (pa11yStandard ?lvl)]
                @ axe_calls env (axeTag ?lvl) @ caps @ snd (detection_outcome env)"
    and caps: "list_all is_capture caps"
    and mi: "map the_issue iss = or_empty (res_issues (pa11y_or_fallback env (pa11yStandard ?lvl)))"
    and mv: "map rule_of vs = or_empty (res_violations (axe_or_fallback env (axeTag ?lvl)))"
    by auto
  have "runScan env url w = (Inr (audit_result env ?lvl iss vs), trace s' @ [Close])"
    using ssrf_protection_allowed [OF allowed] launch close run
    by (simp add: runScan_def runScan_io_def bind_def call_def try_finally_def initial_state_def)
  then show ?thesis using tr caps mi mv
    apply (rule_tac x = iss in exI)
    apply (rule_tac x = vs in exI)
    apply (rule_tac x = caps in exI)
    apply simp
    done
qed

section \<open>Evaluating the scenarios\<close>

text \<open>Collections of definitions to unfold when a scan is evaluated on a given environment.\<close>

lemmas io_defs = bind_def return_def throw_def try_catch_def try_finally_def call_def modify_def
  get_state_def read_pa11yResult_def read_axeResults_def

lemmas capture_defs = capture_def getElementScreenshot_def getElementScreenshot_from.simps attempt_def
  too_small_branch_def shoot_element_def viewport_fallback_def dom_call_def no_options_def
  min_size_def max_attempts_def include_parent_def viewport_padding_def parent_selector_def

lemmas scan_defs = runScan_def runScan_io_def ssrf_protection_def scan_page_def scan_caught_def
  prepare_page_def take_page_screenshot_def run_pa11y_def run_axe_def attach_evidence_def
  cloudflare_detection_def default_level_def pa11yStandard_def axeTag_def initial_state_def
  pa11y_section_of_def axe_section_of_def or_empty_def error_only_def pa11y_fallback_def
  axe_fallback_def null_screens_def node_selector_def

lemma example_address_public: "isPrivateIp net_isIPv4 (\<lambda>ip. False) ''93.184.216.34'' = False"
  by (simp add: isPrivateIp_def str_ge_def)

lemma challenge_markup_lower: "toLowerCase challenge_markup = challenge_markup"
  by (simp add: toLowerCase_def toLowerChar_def challenge_markup_def)

lemma challenge_markup_phrase:
  "str_includes (toLowerCase challenge_markup) ''checking your browser before accessing''"
  by (simp add: challenge_markup_lower) (simp add: challenge_markup_def)

lemma challenge_markup_detected: "challenge_detected challenge_markup ''checking''"
  using challenge_markup_phrase by (simp add: challenge_detected_def isCloudflare_def)

lemma example_markup_lower:
  "toLowerCase example_markup = ''<html><head><title>example domain</title></head><body><h1>example domain</h1><p>this domain is for use in illustrative examples.</p></body></html>''"
  by (simp add: toLowerCase_def toLowerChar_def example_markup_def)

lemma example_markup_expressions:
  "re_meta_refresh example_markup = False" "re_cf_spinner_div example_markup = False"
  "re_cf_class_div example_markup = False" "re_spinner_or_cloudflare example_markup = False"
  by (simp_all add: example_markup_def re_meta_refresh_def re_cf_spinner_div_def
        re_cf_class_div_def re_spinner_or_cloudflare_def ascii_lower_def opt_of_def star_of_def
        not_gt_def is_quote_def not_quote_def finish_def)

lemma example_markup_clear: "challenge_detected example_markup example_text = False"
  by (simp add: challenge_detected_def isCloudflare_def example_markup_lower
        example_markup_expressions onlySpinner_def isSuspiciouslyEmpty_def)
     (simp add: example_text_def)

lemma example_target_allowed: "target_allowed example_env url ''example.com''"
  by (simp add: target_allowed_def example_env_def example_address_public)

section \<open>Scan Orchestrator\<close>

text \<open>
  C1, as stated, fails. On the page of the scenario (its content contains the phrase
  "checking your browser before accessing", its body text has length 8, the Challenge
  Detector classifies it as blocked) the scan calls Pa11y and axe-core and captures
  evidence before it reads the content of the page; and the error thrown by the check
  is caught by the \<open>catch\<close> block of \<open>runScan\<close>, which returns the findings.
\<close>

theorem C1_counterexample:
  "str_includes (toLowerCase challenge_markup) ''checking your browser before accessing'' \<and>
   length ''checking'' = 8 \<and>
   challenge_detected challenge_markup ''checking'' \<and>
   runScan blocked_env ''https://example.com'' None =
     (Inr (Caught \<lparr>issues = [\<lparr>the_issue = heading_issue, issue_screenshot = None\<rparr>], passed = [],
                   notices = None, warnings = None, pa11y_error = None\<rparr>
                  \<lparr>violations = [\<lparr>the_rule_id = ''color-contrast'',
                                  the_nodes = [\<lparr>the_node = \<lparr>node_html = ''<p>'', node_target = Some [''p'']\<rparr>,
                                                node_screenshot = None\<rparr>]\<rparr>],
                   passes = AsGiven (Some []), incomplete = Some [], axe_error = None\<rparr>),
      [ParseUrl ''https://example.com'', DnsLookup ''example.com'', Launch, NewPage, SetViewport,
       SetUserAgent, SetExtraHTTPHeaders, Goto ''https://example.com'', MouseMove, KeyboardPress,
       PageScreenshot, Pa11yTest ''WCAG2AA'', AddScriptTag, AxeRun ''wcag2aa'',
       Capture (IssueCapture 0) [Query ''h1''], Capture (NodeCapture 0 0) [Query ''p''],
       Content, BodyText, Close])"
proof -
  have "runScan blocked_env ''https://example.com'' None =
     (Inr (Caught \<lparr>issues = [\<lparr>the_issue = heading_issue, issue_screenshot = None\<rparr>], passed = [],
                   notices = None, warnings = None, pa11y_error = None\<rparr>
                  \<lparr>violations = [\<lparr>the_rule_id = ''color-contrast'',
                                  the_nodes = [\<lparr>the_node = \<lparr>node_html = ''<p>'', node_target = Some [''p'']\<rparr>,
                                                node_screenshot = None\<rparr>]\<rparr>],
                   passes = AsGiven (Some []), incomplete = Some [], axe_error = None\<rparr>),
      [ParseUrl ''https://example.com'', DnsLookup ''example.com'', Launch, NewPage, SetViewport,
       SetUserAgent, SetExtraHTTPHeaders, Goto ''https://example.com'', MouseMove, KeyboardPress,
       PageScreenshot, Pa11yTest ''WCAG2AA'', AddScriptTag, AxeRun ''wcag2aa'',
       Capture (IssueCapture 0) [Query ''h1''], Capture (NodeCapture 0 0) [Query ''p''],
       Content, BodyText, Close])"
    by (simp add: scan_defs io_defs capture_defs blocked_env_def example_env_def
          example_address_public challenge_markup_detected heading_issue_def
          contrast_violation_def empty_page_def)
  then show ?thesis
    using challenge_markup_phrase challenge_markup_detected by simp
qed

text \<open>
  C1, amended. When the target passes the validator, the browser calls succeed and the
  Challenge Detector classifies the rendered page as blocked, the page was read and
  classified after both audit engines had been invoked on it: reading the content and the
  body text and closing the browser are the last three calls of the scan, and the launch,
  the run of Pa11y and the run of axe-core come before them.
\<close>

theorem C1_challenge_check_follows_both_engines:
  assumes "target_allowed env url host"
    and "all_succeed env (Launch # page_calls url @ [AddScriptTag, Close])"
    and "page_content env = Inr pageContent"
    and "body_innerText env = Inr bodyText"
    and "challenge_detected pageContent bodyText"
  shows "\<exists>before. snd (runScan env url wcagLevel) = before @ [Content, BodyText, Close] \<and>
           Launch \<in> set before \<and>
           Pa11yTest (pa11yStandard (default_level wcagLevel)) \<in> set before \<and>
           AxeRun (axeTag (default_level wcagLevel)) \<in> set before"
proof -
  have browser: "all_succeed env (Launch # page_calls url @ [Close])"
    and tag: "browser env AddScriptTag = Inr ()"
    using assms(2) by (simp_all add: all_succeed_def)
  from runScan_after_navigation [OF assms(1) browser, of wcagLevel]
  obtain iss vs caps where
    run: "snd (runScan env url wcagLevel) =
        [ParseUrl url, DnsLookup host, Launch] @ page_calls url
          @ [PageScreenshot, Pa11yTest (pa11yStandard (default_level wcagLevel))]
          @ axe_calls env (axeTag (default_level wcagLevel)) @ caps
          @ snd (detection_outcome env) @ [Close]"
    by auto
  have "snd (detection_outcome env) = [Content, BodyText]"
    using assms(3,4) by (simp add: detection_outcome_def)
  moreover have "axe_calls env (axeTag (default_level wcagLevel))
                 = [AddScriptTag, AxeRun (axeTag (default_level wcagLevel))]"
    using tag by (simp add: axe_calls_def)
  ultimately show ?thesis
    using run
    by (intro exI [of _ "[ParseUrl url, DnsLookup host, Launch] @ page_calls url
          @ [PageScreenshot, Pa11yTest (pa11yStandard (default_level wcagLevel)),
             AddScriptTag, AxeRun (axeTag (default_level wcagLevel))] @ caps"]) simp
qed

theorem C1_challenge_check_witness:
  "target_allowed blocked_env ''https://example.com'' ''example.com'' \<and>
   all_succeed blocked_env (Launch # page_calls ''https://example.com'' @ [AddScriptTag, Close]) \<and>
   page_content blocked_env = Inr challenge_markup \<and>
   body_innerText blocked_env = Inr ''checking'' \<and>
   challenge_detected challenge_markup ''checking'' \<and>
   (\<exists>before. snd (runScan blocked_env ''https://example.com'' None) = before @ [Content, BodyText, Close] \<and>
           Launch \<in> set before \<and> Pa11yTest ''WCAG2AA'' \<in> set before \<and> AxeRun ''wcag2aa'' \<in> set before)"
proof -
  have 1: "target_allowed blocked_env ''https://example.com'' ''example.com''"
    by (simp add: target_allowed_def blocked_env_def example_env_def example_address_public)
  have 2: "all_succeed blocked_env (Launch # page_calls ''https://example.com'' @ [AddScriptTag, Close])"
    by (simp add: all_succeed_def blocked_env_def example_env_def page_calls_def)
  have 3: "page_content blocked_env = Inr challenge_markup"
    and 4: "body_innerText blocked_env = Inr ''checking''"
    by (simp_all add: blocked_env_def)
  show ?thesis
    using 1 2 3 4 challenge_markup_detected
      C1_challenge_check_follows_both_engines [OF 1 2 3 4 challenge_markup_detected, of None]
    by (simp add: default_level_def pa11yStandard_def axeTag_def)
qed


text \<open>
  C4, as stated, fails. When \<open>page.goto\<close> runs into its timeout, \<open>runScan\<close> does not
  throw: its \<open>catch\<close> block returns an object, after which the browser is closed.
\<close>

theorem C4_counterexample:
  "runScan timeout_env ''https://example.com'' None =
     (Inr (Caught \<lparr>issues = [], passed = [], notices = None, warnings = None, pa11y_error = None\<rparr>
                  \<lparr>violations = [], passes = AsGiven None, incomplete = None,
                   axe_error = Some ''Navigation timeout of 90000 ms exceeded''\<rparr>),
      [ParseUrl ''https://example.com'', DnsLookup ''example.com'', Launch, NewPage, SetViewport,
       SetUserAgent, SetExtraHTTPHeaders, Goto ''https://example.com'', Close])"
  by (simp add: scan_defs io_defs timeout_env_def example_env_def example_address_public
        timeout_error_def)

text \<open>
  C4, amended. When the target passes the validator, the browser is launched and the page
  set up, and the navigation throws (a timeout, for one), \<open>runScan\<close> runs no engine,
  closes the browser and returns a result with no issues and no violations whose axe
  section carries the message of the navigation error in its \<open>error\<close> field.
\<close>

theorem C4_navigation_failure_is_returned:
  assumes "target_allowed env url host"
    and "all_succeed env [Launch, NewPage, SetViewport, SetUserAgent, SetExtraHTTPHeaders, Close]"
    and "browser env (Goto url) = Inl e"
  shows "runScan env url wcagLevel =
     (Inr (Caught \<lparr>issues = [], passed = [], notices = None, warnings = None, pa11y_error = None\<rparr>
                  \<lparr>violations = [], passes = AsGiven None, incomplete = None,
                   axe_error = Some (err_message e)\<rparr>),
      [ParseUrl url, DnsLookup host, Launch, NewPage, SetViewport, SetUserAgent,
       SetExtraHTTPHeaders, Goto url, Close])"
  using assms(2,3) ssrf_protection_allowed [OF assms(1)]
  by (simp add: all_succeed_def runScan_def runScan_io_def scan_page_def scan_caught_def
        prepare_page_def initial_state_def pa11y_section_of_def axe_section_of_def error_only_def
        io_defs)

theorem C4_navigation_failure_witness:
  "target_allowed timeout_env ''https://example.com'' ''example.com'' \<and>
   all_succeed timeout_env [Launch, NewPage, SetViewport, SetUserAgent, SetExtraHTTPHeaders, Close] \<and>
   browser timeout_env (Goto ''https://example.com'') = Inl timeout_error \<and>
   fst (runScan timeout_env ''https://example.com'' (Some ''AAA'')) =
     Inr (Caught \<lparr>issues = [], passed = [], notices = None, warnings = None, pa11y_error = None\<rparr>
                 \<lparr>violations = [], passes = AsGiven None, incomplete = None,
                  axe_error = Some (err_message timeout_error)\<rparr>)"
proof -
  have 1: "target_allowed timeout_env ''https://example.com'' ''example.com''"
    by (simp add: target_allowed_def timeout_env_def example_env_def example_address_public)
  have 2: "all_succeed timeout_env [Launch, NewPage, SetViewport, SetUserAgent, SetExtraHTTPHeaders, Close]"
    by (simp add: all_succeed_def timeout_env_def)
  have 3: "browser timeout_env (Goto ''https://example.com'') = Inl timeout_error"
    by (simp add: timeout_env_def)
  show ?thesis
    using 1 2 3 C4_navigation_failure_is_returned [OF 1 2 3, of "Some ''AAA''"] by simp
qed

text \<open>
  C5. A host that resolves to 172.31.3.0, an address of the private range 172.16/12, is
  not rejected: the browser is launched, a page is opened and the scan returns a result.
\<close>

theorem C5_private_address_reaches_the_browser:
  "dotted_octets ''172.31.3.0'' = Some [172, 31, 3, 0] \<and>
   private_ipv4_range [172, 31, 3, 0] \<and>
   dns_lookup internal_env ''example.com'' = Inr [''172.31.3.0''] \<and>
   take 4 (snd (runScan internal_env ''http://example.com'' None)) =
     [ParseUrl ''http://example.com'', DnsLookup ''example.com'', Launch, NewPage] \<and>
   (\<exists>result. fst (runScan internal_env ''http://example.com'' None) = Inr result)"
proof -
  have internal: "isPrivateIp net_isIPv4 (\<lambda>ip. False) ''172.31.3.0'' = False"
    by (simp add: isPrivateIp_def str_ge_def)
  have 1: "target_allowed internal_env ''http://example.com'' ''example.com''"
    by (simp add: target_allowed_def internal_env_def example_env_def internal)
  have 2: "all_succeed internal_env (Launch # page_calls ''http://example.com'' @ [Close])"
    by (simp add: all_succeed_def internal_env_def example_env_def page_calls_def)
  from runScan_after_navigation [OF 1 2, of None]
  obtain iss vs caps where
    "runScan internal_env ''http://example.com'' None =
       (Inr (audit_result internal_env (default_level None) iss vs),
        [ParseUrl ''http://example.com'', DnsLookup ''example.com'', Launch] @ page_calls ''http://example.com''
          @ [PageScreenshot, Pa11yTest (pa11yStandard (default_level None))]
          @ axe_calls internal_env (axeTag (default_level None)) @ caps
          @ snd (detection_outcome internal_env) @ [Close])"
    by blast
  then show ?thesis
    by (simp add: page_calls_def internal_env_def dotted_octets_def octet_of_def decimal_value_def
          is_digit_def)
qed


lemma audit_result_sections:
  "pa11y (audit_result env lvl iss vs) =
     pa11y_section_of (Some (pa11y_or_fallback env (pa11yStandard lvl))) iss
       (or_empty (res_passed (pa11y_or_fallback env (pa11yStandard lvl))))"
  "violations (axe (audit_result env lvl iss vs)) = vs"
  "passes_rules (passes (axe (audit_result env lvl iss vs))) =
     or_empty (res_passes (axe_or_fallback env (axeTag lvl)))"
  "incomplete (axe (audit_result env lvl iss vs)) = res_incomplete (axe_or_fallback env (axeTag lvl))"
  "axe_error (axe (audit_result env lvl iss vs)) = res_axe_error (axe_or_fallback env (axeTag lvl))"
  by (simp_all add: audit_result_def Let_def axe_section_of_def passes_null_screens
        split: sum.splits del: map_map)

text \<open>
  C6. When the target passes the validator and the browser calls up to the synthetic
  interaction and the closing succeed: if Pa11y throws and axe-core returns, \<open>runScan\<close>
  returns a result whose Pa11y section is the empty result set with the error's message,
  and whose axe section holds all violations, passes and incomplete checks that axe-core
  reported; if axe-core throws (at the script tag or at the run) and Pa11y returns, the
  result holds all that Pa11y reported, and its axe section is the empty result set with
  the error's message. This holds whatever the captures and the challenge check do.
\<close>

theorem C6_one_engine_failure_is_isolated:
  assumes "target_allowed env url host"
    and "all_succeed env (Launch # page_calls url @ [Close])"
  shows
    "(pa11y_test env (pa11yStandard (default_level wcagLevel)) = Inl e \<and>
      axe_outcome env (axeTag (default_level wcagLevel)) = Inr ar \<longrightarrow>
        (\<exists>result. fst (runScan env url wcagLevel) = Inr result \<and>
           pa11y result = \<lparr>issues = [], passed = [], notices = Some [], warnings = Some [],
                            pa11y_error = Some (err_message e)\<rparr> \<and>
           map rule_of (violations (axe result)) = or_empty (res_violations ar) \<and>
           passes_rules (passes (axe result)) = or_empty (res_passes ar) \<and>
           incomplete (axe result) = res_incomplete ar \<and>
           axe_error (axe result) = res_axe_error ar)) \<and>
     (pa11y_test env (pa11yStandard (default_level wcagLevel)) = Inr pr \<and>
      axe_outcome env (axeTag (default_level wcagLevel)) = Inl e \<longrightarrow>
        (\<exists>result. fst (runScan env url wcagLevel) = Inr result \<and>
           map the_issue (issues (pa11y result)) = or_empty (res_issues pr) \<and>
           passed (pa11y result) = or_empty (res_passed pr) \<and>
           notices (pa11y result) = res_notices pr \<and>
           warnings (pa11y result) = res_warnings pr \<and>
           pa11y_error (pa11y result) = res_error pr \<and>
           violations (axe result) = [] \<and>
           passes_rules (passes (axe result)) = [] \<and>
           incomplete (axe result) = Some [] \<and>
           axe_error (axe result) = Some (err_message e)))"
proof -
  let ?lvl = "default_level wcagLevel"
  from runScan_after_navigation [OF assms, of wcagLevel]
  obtain iss vs where
    run: "fst (runScan env url wcagLevel) = Inr (audit_result env ?lvl iss vs)"
    and mi: "map the_issue iss = or_empty (res_issues (pa11y_or_fallback env (pa11yStandard ?lvl)))"
    and mv: "map rule_of vs = or_empty (res_violations (axe_or_fallback env (axeTag ?lvl)))"
    by auto
  have only_axe: "\<exists>result. fst (runScan env url wcagLevel) = Inr result \<and>
           pa11y result = \<lparr>issues = [], passed = [], notices = Some [], warnings = Some [],
                            pa11y_error = Some (err_message e)\<rparr> \<and>
           map rule_of (violations (axe result)) = or_empty (res_violations ar) \<and>
           passes_rules (passes (axe result)) = or_empty (res_passes ar) \<and>
           incomplete (axe result) = res_incomplete ar \<and>
           axe_error (axe result) = res_axe_error ar"
    if p: "pa11y_test env (pa11yStandard ?lvl) = Inl e"
      and a: "axe_outcome env (axeTag ?lvl) = Inr ar"
  proof -
    have pf: "pa11y_or_fallback env (pa11yStandard ?lvl) = pa11y_fallback (err_message e)"
      and af: "axe_or_fallback env (axeTag ?lvl) = ar"
      using p a by (simp_all add: pa11y_or_fallback_def axe_or_fallback_def)
    have "iss = []" using mi by (simp add: pf pa11y_fallback_def or_empty_def)
    then show ?thesis
      using run mv
      by (intro exI [of _ "audit_result env ?lvl iss vs"])
         (simp add: audit_result_sections pf af pa11y_fallback_def pa11y_section_of_def or_empty_def)
  qed
  have only_pa11y: "\<exists>result. fst (runScan env url wcagLevel) = Inr result \<and>
           map the_issue (issues (pa11y result)) = or_empty (res_issues pr) \<and>
           passed (pa11y result) = or_empty (res_passed pr) \<and>
           notices (pa11y result) = res_notices pr \<and>
           warnings (pa11y result) = res_warnings pr \<and>
           pa11y_error (pa11y result) = res_error pr \<and>
           violations (axe result) = [] \<and>
           passes_rules (passes (axe result)) = [] \<and>
           incomplete (axe result) = Some [] \<and>
           axe_error (axe result) = Some (err_message e)"
    if p: "pa11y_test env (pa11yStandard ?lvl) = Inr pr"
      and a: "axe_outcome env (axeTag ?lvl) = Inl e"
  proof -
    have pf: "pa11y_or_fallback env (pa11yStandard ?lvl) = pr"
      and af: "axe_or_fallback env (axeTag ?lvl) = axe_fallback (err_message e)"
      using p a by (simp_all add: pa11y_or_fallback_def axe_or_fallback_def)
    have "vs = []" using mv by (simp add: af axe_fallback_def or_empty_def)
    then show ?thesis
      using run mi
      by (intro exI [of _ "audit_result env ?lvl iss vs"])
         (simp add: audit_result_sections pf af axe_fallback_def pa11y_section_of_def or_empty_def)
  qed
  show ?thesis using only_axe only_pa11y by blast
qed

theorem C6_one_engine_failure_witness:
  "target_allowed pa11y_down_env ''https://example.com'' ''example.com'' \<and>
   all_succeed pa11y_down_env (Launch # page_calls ''https://example.com'' @ [Close]) \<and>
   pa11y_test pa11y_down_env ''WCAG2AA'' = Inl (Error None ''Pa11y timed out'') \<and>
   (\<exists>result. fst (runScan pa11y_down_env ''https://example.com'' None) = Inr result \<and>
      pa11y result = \<lparr>issues = [], passed = [], notices = Some [], warnings = Some [],
                       pa11y_error = Some ''Pa11y timed out''\<rparr> \<and>
      map rule_of (violations (axe result)) = [contrast_violation] \<and>
      axe_error (axe result) = None) \<and>
   target_allowed axe_down_env ''https://example.com'' ''example.com'' \<and>
   all_succeed axe_down_env (Launch # page_calls ''https://example.com'' @ [Close]) \<and>
   axe_outcome axe_down_env ''wcag2aa'' = Inl (Error None ''net::ERR_BLOCKED'') \<and>
   (\<exists>result. fst (runScan axe_down_env ''https://example.com'' None) = Inr result \<and>
      map the_issue (issues (pa11y result)) = [heading_issue] \<and>
      pa11y_error (pa11y result) = None \<and>
      violations (axe result) = [] \<and>
      axe_error (axe result) = Some ''net::ERR_BLOCKED'')"
proof -
  let ?u = "''https://example.com''"
  let ?ar = "\<lparr>res_violations = Some [contrast_violation], res_passes = Some [],
             res_incomplete = Some [], res_axe_error = None\<rparr>"
  let ?pr = "\<lparr>res_issues = Some [heading_issue], res_passed = None,
             res_notices = None, res_warnings = None, res_error = None\<rparr>"
  have p1: "target_allowed pa11y_down_env ?u ''example.com''"
    by (simp add: target_allowed_def pa11y_down_env_def example_env_def example_address_public)
  have p2: "all_succeed pa11y_down_env (Launch # page_calls ?u @ [Close])"
    by (simp add: all_succeed_def pa11y_down_env_def example_env_def page_calls_def)
  have p3: "pa11y_test pa11y_down_env (pa11yStandard (default_level None)) = Inl (Error None ''Pa11y timed out'')"
    and p3': "pa11y_test pa11y_down_env ''WCAG2AA'' = Inl (Error None ''Pa11y timed out'')"
    by (simp_all add: pa11y_down_env_def)
  have p4: "axe_outcome pa11y_down_env (axeTag (default_level None)) = Inr ?ar"
    by (simp add: axe_outcome_def pa11y_down_env_def example_env_def)
  have a1: "target_allowed axe_down_env ?u ''example.com''"
    by (simp add: target_allowed_def axe_down_env_def example_env_def example_address_public)
  have a2: "all_succeed axe_down_env (Launch # page_calls ?u @ [Close])"
    by (simp add: all_succeed_def axe_down_env_def page_calls_def)
  have a3: "pa11y_test axe_down_env (pa11yStandard (default_level None)) = Inr ?pr"
    by (simp add: axe_down_env_def example_env_def)
  have a4: "axe_outcome axe_down_env (axeTag (default_level None)) = Inl (Error None ''net::ERR_BLOCKED'')"
    and a4': "axe_outcome axe_down_env ''wcag2aa'' = Inl (Error None ''net::ERR_BLOCKED'')"
    by (simp_all add: axe_outcome_def axe_down_env_def)
  from C6_one_engine_failure_is_isolated
         [OF p1 p2, where wcagLevel = None and e = "Error None ''Pa11y timed out''" and ar = ?ar] p3 p4
  have first: "\<exists>result. fst (runScan pa11y_down_env ?u None) = Inr result \<and>
      pa11y result = \<lparr>issues = [], passed = [], notices = Some [], warnings = Some [],
                       pa11y_error = Some ''Pa11y timed out''\<rparr> \<and>
      map rule_of (violations (axe result)) = [contrast_violation] \<and>
      axe_error (axe result) = None"
    by (auto simp: or_empty_def)
  from C6_one_engine_failure_is_isolated
         [OF a1 a2, where wcagLevel = None and e = "Error None ''net::ERR_BLOCKED''" and pr = ?pr] a3 a4
  have second: "\<exists>result. fst (runScan axe_down_env ?u None) = Inr result \<and>
      map the_issue (issues (pa11y result)) = [heading_issue] \<and>
      pa11y_error (pa11y result) = None \<and>
      violations (axe result) = [] \<and>
      axe_error (axe result) = Some ''net::ERR_BLOCKED''"
    by (auto simp: or_empty_def)
  show ?thesis
    using p1 p2 p3' first a1 a2 a4' second by blast
qed

text \<open>
  C10. For every conformance-level argument other than the string \<open>AAA\<close>, the omitted
  argument included, the standard given to Pa11y is \<open>WCAG2AA\<close> and the tag given to
  axe-core is \<open>wcag2aa\<close>; the scan does in every environment exactly what it does when
  the argument is omitted (no value is rejected); and where the target passes the
  validator and the browser calls succeed, the scan returns a result and both engines
  are run at these levels.
\<close>

theorem C10_any_other_level_is_AA:
  assumes "wcagLevel \<noteq> Some ''AAA''"
  shows "pa11yStandard (default_level wcagLevel) = ''WCAG2AA'' \<and>
         axeTag (default_level wcagLevel) = ''wcag2aa'' \<and>
         runScan env url wcagLevel = runScan env url None \<and>
         (target_allowed env url host \<and>
          all_succeed env (Launch # page_calls url @ [AddScriptTag, Close]) \<longrightarrow>
            (\<exists>result. fst (runScan env url wcagLevel) = Inr result) \<and>
            Pa11yTest ''WCAG2AA'' \<in> set (snd (runScan env url wcagLevel)) \<and>
            AxeRun ''wcag2aa'' \<in> set (snd (runScan env url wcagLevel)))"
proof -
  have std: "pa11yStandard (default_level wcagLevel) = ''WCAG2AA''"
    and tag: "axeTag (default_level wcagLevel) = ''wcag2aa''"
    using assms by (cases wcagLevel; simp add: pa11yStandard_def axeTag_def default_level_def)+
  have std0: "pa11yStandard (default_level None) = ''WCAG2AA''"
    and tag0: "axeTag (default_level None) = ''wcag2aa''"
    by (simp_all add: pa11yStandard_def axeTag_def default_level_def)
  have same: "runScan env url wcagLevel = runScan env url None"
    by (simp add: runScan_def runScan_io_def scan_page_def std tag std0 tag0)
  have engines: "(\<exists>result. fst (runScan env url wcagLevel) = Inr result) \<and>
            Pa11yTest ''WCAG2AA'' \<in> set (snd (runScan env url wcagLevel)) \<and>
            AxeRun ''wcag2aa'' \<in> set (snd (runScan env url wcagLevel))"
    if allowed: "target_allowed env url host"
      and ok: "all_succeed env (Launch # page_calls url @ [AddScriptTag, Close])"
  proof -
    have browser: "all_succeed env (Launch # page_calls url @ [Close])"
      and script: "browser env AddScriptTag = Inr ()"
      using ok by (simp_all add: all_succeed_def)
    from runScan_after_navigation [OF allowed browser, of wcagLevel]
    obtain iss vs caps where
      "runScan env url wcagLevel =
         (Inr (audit_result env (default_level wcagLevel) iss vs),
          [ParseUrl url, DnsLookup host, Launch] @ page_calls url
            @ [PageScreenshot, Pa11yTest (pa11yStandard (default_level wcagLevel))]
            @ axe_calls env (axeTag (default_level wcagLevel)) @ caps
            @ snd (detection_outcome env) @ [Close])"
      by blast
    then show ?thesis
      using script by (simp add: std tag axe_calls_def)
  qed
  show ?thesis using std tag same engines by blast
qed

theorem C10_any_other_level_witness:
  "Some ''aaa'' \<noteq> Some ''AAA'' \<and>
   target_allowed example_env ''https://example.com'' ''example.com'' \<and>
   all_succeed example_env (Launch # page_calls ''https://example.com'' @ [AddScriptTag, Close]) \<and>
   runScan example_env ''https://example.com'' (Some ''aaa'') = runScan example_env ''https://example.com'' None \<and>
   (\<exists>result. fst (runScan example_env ''https://example.com'' (Some ''aaa'')) = Inr result) \<and>
   Pa11yTest ''WCAG2AA'' \<in> set (snd (runScan example_env ''https://example.com'' (Some ''aaa''))) \<and>
   AxeRun ''wcag2aa'' \<in> set (snd (runScan example_env ''https://example.com'' (Some ''aaa'')))"
proof -
  have 0: "Some ''aaa'' \<noteq> Some ''AAA''" by simp
  have 1: "target_allowed example_env ''https://example.com'' ''example.com''"
    by (rule example_target_allowed)
  have 2: "all_succeed example_env (Launch # page_calls ''https://example.com'' @ [AddScriptTag, Close])"
    by (simp add: all_succeed_def example_env_def page_calls_def)
  show ?thesis
    using 0 1 2 C10_any_other_level_is_AA [OF 0, of example_env "''https://example.com''" "''example.com''"]
    by blast
qed

section \<open>Job submission and the daily limit\<close>

lemma newest_most_recent:
  "rs \<noteq> [] \<Longrightarrow> \<exists>r. newest rs = Some r \<and> createdAt r = most_recent rs"
proof (induction rs)
  case Nil
  then show ?case by simp
next
  case (Cons x xs)
  show ?case
  proof (cases "xs = []")
    case True
    then show ?thesis by (simp add: most_recent_def)
  next
    case False
    with Cons.IH obtain r where r: "newest xs = Some r" "createdAt r = most_recent xs" by blast
    have "most_recent (x # xs) = max (createdAt x) (most_recent xs)"
      using False by (simp add: most_recent_def)
    then show ?thesis using r by (auto simp: max_def)
  qed
qed

lemma newest_none: "newest rs = None \<longleftrightarrow> rs = []"
  by (induction rs) (auto split: option.splits)

lemma canScanToday_most_recent:
  "public_reports db email \<noteq> [] \<Longrightarrow>
   canScanToday None db now email = Inr (day_ms < now - most_recent (public_reports db email))"
  using newest_most_recent [of "public_reports db email"]
  by (auto simp: canScanToday_def public_reports_def day_ms_def)

text \<open>
  C9. A public-tier request with a URL and an email, from a requester who has public-tier
  reports: when at most 24 hours have passed since the most recent of them, the request
  is answered with 429 and no report is created; when more than 24 hours have passed, it
  is accepted and one pending public report is created. The admin request is accepted
  whatever the reports are, and the report it creates does not count for the limit.
\<close>

theorem C9_second_public_scan_within_a_day:
  assumes "url \<noteq> []" and "email \<noteq> []" and "public_reports db email \<noteq> []"
  shows
    "(now - most_recent (public_reports db email) \<le> day_ms \<longrightarrow>
        public_scan None now created (Some url) (Some email) db = (TooManyRequests, db)) \<and>
     (day_ms < now - most_recent (public_reports db email) \<longrightarrow>
        public_scan None now created (Some url) (Some email) db
          = (Accepted (length db), db @ [new_report url email ''public'' created])) \<and>
     admin_scan None created (Some url) (Some email) db
       = (Accepted (length db), db @ [new_report url email ''admin'' created]) \<and>
     public_reports (db @ [new_report url email ''admin'' created]) email = public_reports db email"
  using assms canScanToday_most_recent [OF assms(3), of now]
  by (auto simp: public_scan_def admin_scan_def saveReport_def falsy_def or_empty_def
        new_report_def public_reports_def)

theorem C9_second_public_scan_witness:
  "''https://example.com'' \<noteq> [] \<and> ''ann@example.com'' \<noteq> [] \<and>
   public_reports one_public_report ''ann@example.com'' \<noteq> [] \<and>
   most_recent (public_reports one_public_report ''ann@example.com'') = 1700000000000 \<and>
   public_scan None 1700003600000 1700003600005 (Some ''https://example.com'') (Some ''ann@example.com'')
       one_public_report = (TooManyRequests, one_public_report) \<and>
   public_scan None 1700086400001 1700086400005 (Some ''https://example.com'') (Some ''ann@example.com'')
       one_public_report
     = (Accepted 2, one_public_report
          @ [new_report ''https://example.com'' ''ann@example.com'' ''public'' 1700086400005])"
proof -
  have 1: "''https://example.com'' \<noteq> []" and 2: "''ann@example.com'' \<noteq> []" by simp_all
  have reports: "public_reports one_public_report ''ann@example.com''
                 = [new_report ''https://example.com'' ''ann@example.com'' ''public'' 1700000000000]"
    by (simp add: public_reports_def one_public_report_def new_report_def)
  have 3: "public_reports one_public_report ''ann@example.com'' \<noteq> []"
    by (simp add: reports)
  have recent: "most_recent (public_reports one_public_report ''ann@example.com'') = 1700000000000"
    by (simp add: reports most_recent_def new_report_def)
  have len: "length one_public_report = 2" by (simp add: one_public_report_def)
  show ?thesis
    using 1 2 3 recent len
      C9_second_public_scan_within_a_day [OF 1 2 3, of 1700003600000 1700003600005]
      C9_second_public_scan_within_a_day [OF 1 2 3, of 1700086400001 1700086400005]
    by (simp add: day_ms_def)
qed

section \<open>Rejections of the validator\<close>

text \<open>
  When the resolver fails with \<open>ENOTFOUND\<close>, \<open>runScan\<close> throws "Invalid or unreachable
  domain."; when \<open>isPrivateIp\<close> holds of a resolved address, it throws the error of the
  SSRF guard. In both cases the only calls made are the parsing of the URL and the
  lookup: no browser is launched.
\<close>

theorem X1_rejected_targets_never_reach_the_browser:
  "(url_hostname env url = Inr host \<and> dns_lookup env host = Inl e \<and> err_code e = Some ''ENOTFOUND'' \<longrightarrow>
      runScan env url wcagLevel = (Inl (Error None invalid_message), [ParseUrl url, DnsLookup host])) \<and>
   (url_hostname env url = Inr host \<and> dns_lookup env host = Inr addresses \<and>
    list_ex (isPrivateIp (isIPv4 env) (isIPv6 env)) addresses \<longrightarrow>
      runScan env url wcagLevel = (Inl (Error None forbidden_message), [ParseUrl url, DnsLookup host]))"
  by (simp add: runScan_def runScan_io_def ssrf_protection_def initial_state_def
        bind_def return_def throw_def try_catch_def call_def forbidden_message_def invalid_message_def)

theorem X1_rejected_targets_witness:
  "url_hostname unresolvable_env ''http://nowhere.invalid'' = Inr ''example.com'' \<and>
   dns_lookup unresolvable_env ''example.com'' = Inl (Error (Some ''ENOTFOUND'') ''getaddrinfo ENOTFOUND'') \<and>
   runScan unresolvable_env ''http://nowhere.invalid'' None
     = (Inl (Error None ''Invalid or unreachable domain.''),
        [ParseUrl ''http://nowhere.invalid'', DnsLookup ''example.com'']) \<and>
   dns_lookup loopback_env ''example.com'' = Inr [''127.0.0.1''] \<and>
   list_ex (isPrivateIp (isIPv4 loopback_env) (isIPv6 loopback_env)) [''127.0.0.1''] \<and>
   runScan loopback_env ''http://localhost'' None
     = (Inl (Error None ''Scanning internal/private IP addresses is not allowed for security reasons.''),
        [ParseUrl ''http://localhost'', DnsLookup ''example.com''])"
proof -
  have u1: "url_hostname unresolvable_env ''http://nowhere.invalid'' = Inr ''example.com''"
    and u2: "dns_lookup unresolvable_env ''example.com'' = Inl (Error (Some ''ENOTFOUND'') ''getaddrinfo ENOTFOUND'')"
    by (simp_all add: unresolvable_env_def example_env_def)
  have l1: "url_hostname loopback_env ''http://localhost'' = Inr ''example.com''"
    and l2: "dns_lookup loopback_env ''example.com'' = Inr [''127.0.0.1'']"
    by (simp_all add: loopback_env_def example_env_def)
  have l3: "list_ex (isPrivateIp (isIPv4 loopback_env) (isIPv6 loopback_env)) [''127.0.0.1'']"
    by (simp add: loopback_env_def example_env_def isPrivateIp_def net_isIPv4_def dotted_octets_def
          octet_of_def decimal_value_def is_digit_def)
  show ?thesis
    using u1 u2 l2 l3
      X1_rejected_targets_never_reach_the_browser
        [of unresolvable_env "''http://nowhere.invalid''" "''example.com''"
            "Error (Some ''ENOTFOUND'') ''getaddrinfo ENOTFOUND''" None]
      X1_rejected_targets_never_reach_the_browser
        [of loopback_env "''http://localhost''" "''example.com''" _ _ "[''127.0.0.1'']"] l1
    by (simp add: invalid_message_def forbidden_message_def)
qed

section \<open>A page that is no challenge page\<close>

text \<open>
  When the target passes the validator, the browser calls succeed, and the content and
  the body text of the page are read and not classified as a challenge, \<open>runScan\<close>
  returns the object of its \<open>try\<close> block, with the screenshot of the viewport as a data
  URI when one was taken.
\<close>

theorem X2_clear_page_gives_complete_result:
  assumes "target_allowed env url host"
    and "all_succeed env (Launch # page_calls url @ [Close])"
    and "page_content env = Inr pageContent"
    and "body_innerText env = Inr bodyText"
    and "challenge_detected pageContent bodyText = False"
  shows "\<exists>pa11y_section axe_section.
           fst (runScan env url wcagLevel) =
             Inr (Complete pa11y_section axe_section
                    (case page_screenshot env of
                       Inl e \<Rightarrow> None
                     | Inr shot \<Rightarrow> if shot = [] then None else Some (data_uri shot)))"
proof -
  from runScan_after_navigation [OF assms(1,2), of wcagLevel]
  obtain iss vs where
    run: "fst (runScan env url wcagLevel) = Inr (audit_result env (default_level wcagLevel) iss vs)"
    by auto
  have "fst (detection_outcome env) = Inr ()"
    using assms(3,4,5) by (simp add: detection_outcome_def)
  then show ?thesis
    using run by (simp add: audit_result_def Let_def)
qed

theorem X2_clear_page_witness:
  "target_allowed example_env ''https://example.com'' ''example.com'' \<and>
   all_succeed example_env (Launch # page_calls ''https://example.com'' @ [Close]) \<and>
   page_content example_env = Inr example_markup \<and>
   body_innerText example_env = Inr example_text \<and>
   challenge_detected example_markup example_text = False \<and>
   (\<exists>pa11y_section axe_section.
      fst (runScan example_env ''https://example.com'' None) =
        Inr (Complete pa11y_section axe_section (Some ''data:image/png;base64,VklFVw'')))"
proof -
  have 1: "target_allowed example_env ''https://example.com'' ''example.com''"
    by (rule example_target_allowed)
  have 2: "all_succeed example_env (Launch # page_calls ''https://example.com'' @ [Close])"
    by (simp add: all_succeed_def example_env_def page_calls_def)
  have 3: "page_content example_env = Inr example_markup"
    and 4: "body_innerText example_env = Inr example_text"
    and shot: "page_screenshot example_env = Inr ''VklFVw''"
    by (simp_all add: example_env_def)
  show ?thesis
    using 1 2 3 4 example_markup_clear
      X2_clear_page_gives_complete_result [OF 1 2 3 4 example_markup_clear, of None]
    by (simp add: shot data_uri_def)
qed

end
